theory Spec2Isabelle
  imports Complex_Main
begin

section \<open>Order lifecycle and payment reconciliation\<close>

text \<open>
  A shallow embedding of the order workflow of the store's backend:
  \<^verbatim>\<open>createOrder\<close>, \<^verbatim>\<open>createPaymentIntent\<close> and \<^verbatim>\<open>updateOrderStatus\<close> of
  \<^verbatim>\<open>controllers/orderController.ts\<close> and \<^verbatim>\<open>handleStripeWebhook\<close> of
  \<^verbatim>\<open>controllers/webhookController.ts\<close>.

  Every handler is a function from the store (the two database tables it touches, the
  confirmation mails attempted, the payment-intent requests issued and the log) to an HTTP
  response and the store afterwards. An exception of the source is a value \<open>Throw e\<close>; the
  store reached when it was raised is kept, since nothing is rolled back.

  JavaScript numbers that hold money (\<^verbatim>\<open>price\<close>, \<^verbatim>\<open>totalAmount\<close>, the amount in
  cents) are IEEE 754 doubles: every product and every sum is rounded to the nearest double.
  The column \<^verbatim>\<open>stock\<close> is a 32-bit integer: an update that would leave it outside that
  range fails.
\<close>

subsection \<open>JavaScript numbers\<close>

text \<open>
  A double is a rational (every finite double is one), an infinity or NaN. Negative zero is
  identified with zero: the handlers never divide, and the two compare equal and print
  alike.
\<close>

datatype number = Finite rat | PosInfinity | NegInfinity | NaN

text \<open>Rounding to the nearest integer, a tie going to the even neighbour.\<close>

definition round_half_even :: "rat \<Rightarrow> int" where
  "round_half_even x =
     (let f = \<lfloor>x\<rfloor>; r = x - of_int f
      in if r < 1 / 2 then f else if 1 / 2 < r then f + 1 else if even f then f else f + 1)"

text \<open>
  The largest \<open>e\<close> with \<open>lo \<le> e < hi\<close> and \<open>2\<^sup>e \<le> a\<close>, or \<open>lo\<close> when there is none, by
  bisection; \<open>n\<close> steps settle a range of \<open>2\<^sup>n\<close> exponents.
\<close>

fun binade :: "nat \<Rightarrow> int \<Rightarrow> int \<Rightarrow> rat \<Rightarrow> int" where
  "binade 0 lo hi a = lo"
| "binade (Suc n) lo hi a =
     (let mid = (lo + hi) div 2
      in if 2 powi mid \<le> a then binade n mid hi a else binade n lo mid a)"

text \<open>
  The exponent of the binade of a magnitude, within the exponents of normal doubles
  (\<open>-1022\<close> to \<open>1023\<close>): smaller magnitudes are subnormal and share the exponent \<open>-1022\<close>.
\<close>

definition exponent :: "rat \<Rightarrow> int" where
  "exponent a = binade 11 (- 1022) 1024 a"

text \<open>
  Rounding a rational to binary64, to nearest with ties to even: the magnitude is rounded to
  a multiple of the spacing \<open>2\<^sup>q\<close> of its binade (53 significant bits, so \<open>q\<close> is the
  exponent less 52, and \<open>-1074\<close> for subnormals); a result of \<open>2\<^sup>1\<^sup>0\<^sup>2\<^sup>4\<close> or more is an
  infinity.
\<close>

definition fl :: "rat \<Rightarrow> number" where
  "fl x =
     (let q = exponent \<bar>x\<bar> - 52;
          m = round_half_even (\<bar>x\<bar> / 2 powi q);
          y = of_int m * 2 powi q
      in if 2 powi 1024 \<le> y then (if 0 < x then PosInfinity else NegInfinity)
         else Finite (if 0 < x then y else - y))"

text \<open>The sign of a number; NaN has none.\<close>

fun sign :: "number \<Rightarrow> int" where
  "sign (Finite a) = (if 0 < a then 1 else if a < 0 then - 1 else 0)"
| "sign PosInfinity = 1"
| "sign NegInfinity = - 1"
| "sign NaN = 0"

text \<open>\<^verbatim>\<open>x + y\<close> and \<^verbatim>\<open>x * y\<close> on numbers.\<close>

fun js_add :: "number \<Rightarrow> number \<Rightarrow> number" where
  "js_add (Finite a) (Finite b) = fl (a + b)"
| "js_add NaN y = NaN"
| "js_add x NaN = NaN"
| "js_add PosInfinity NegInfinity = NaN"
| "js_add NegInfinity PosInfinity = NaN"
| "js_add PosInfinity y = PosInfinity"
| "js_add x PosInfinity = PosInfinity"
| "js_add NegInfinity y = NegInfinity"
| "js_add x NegInfinity = NegInfinity"

fun js_mul :: "number \<Rightarrow> number \<Rightarrow> number" where
  "js_mul (Finite a) (Finite b) = fl (a * b)"
| "js_mul NaN y = NaN"
| "js_mul x NaN = NaN"
| "js_mul x y =
     (if sign x * sign y = 0 then NaN
      else if 0 < sign x * sign y then PosInfinity else NegInfinity)"

text \<open>
  \<^verbatim>\<open>Math.round\<close>: the nearest integer, a tie going towards \<open>+\<infinity>\<close>; the result is exact.
\<close>

fun Math_round :: "number \<Rightarrow> number" where
  "Math_round (Finite a) = Finite (of_int \<lfloor>a + 1 / 2\<rfloor>)"
| "Math_round x = x"

text \<open>The range of a column of type \<^verbatim>\<open>Int\<close> (a 32-bit integer of the database).\<close>

definition int32 :: "int \<Rightarrow> bool" where
  "int32 x \<longleftrightarrow> - 2147483648 \<le> x \<and> x \<le> 2147483647"

subsection \<open>Data model\<close>

datatype order_status = PENDING | PAID | FAILED | CANCELLED

record product =
  name :: string
  unit_price :: number
  stock :: int

record order_item =
  productId :: string
  price :: number
  quantity :: int

record order =
  customerEmail :: string
  totalAmount :: number
  status :: order_status
  stripePaymentIntentId :: "string option"
  items :: "order_item list"

datatype log_entry = LogError string | LogWarn string | LogInfo string

text \<open>
  One attempt to send a confirmation mail: recipient, order identifier, and whether
  \<^verbatim>\<open>sendOrderConfirmationEmail\<close> returned (\<open>True\<close>) or threw (\<open>False\<close>).
\<close>

record mail_attempt =
  mail_to :: string
  mail_orderId :: string
  mail_delivered :: bool

text \<open>One call of \<^verbatim>\<open>stripe.paymentIntents.create\<close>: amount, currency and the two metadata fields.\<close>

record intent_request =
  amount :: number
  currency :: string
  meta_orderId :: string
  meta_customerEmail :: string

record store =
  products :: "string \<rightharpoonup> product"
  orders :: "string \<rightharpoonup> order"
  mail_attempts :: "mail_attempt list"
  intent_requests :: "intent_request list"
  log :: "log_entry list"

subsection \<open>Errors and responses\<close>

text \<open>
  \<open>AppError\<close> is the class of \<^verbatim>\<open>utils/errors.ts\<close> (message and status code). The other
  constructors are the exceptions of the collaborators: a Prisma request error with its code
  (\<^verbatim>\<open>P2025\<close>: record to update not found; \<^verbatim>\<open>P2002\<close>: unique constraint;
  \<^verbatim>\<open>P2020\<close>: value out of range for the column), an error of the payment processor, and
  a plain \<^verbatim>\<open>Error\<close>.
\<close>

datatype exn =
  AppError string nat
  | PrismaError string
  | StripeError string
  | Error string

datatype 'a result = Ok 'a | Throw exn

datatype payload =
  NoData
  | OrderData string order
  | IntentData string order string
  | Received

record response =
  statusCode :: nat
  success :: bool
  message :: string
  data :: payload

definition sendSuccess :: "payload \<Rightarrow> string \<Rightarrow> nat \<Rightarrow> response" where
  "sendSuccess d m c = \<lparr>statusCode = c, success = True, message = m, data = d\<rparr>"

definition sendError :: "string \<Rightarrow> nat \<Rightarrow> response" where
  "sendError m c = \<lparr>statusCode = c, success = False, message = m, data = NoData\<rparr>"

definition logger :: "log_entry \<Rightarrow> store \<Rightarrow> store" where
  "logger e st = st\<lparr>log := log st @ [e]\<rparr>"

subsection \<open>Rendering integers in template strings\<close>

text \<open>
  \<^verbatim>\<open>`${n}`\<close> for an integer-valued number: decimal digits with a leading minus sign
  (JavaScript renders integers of magnitude below \<open>10\<^sup>2\<^sup>1\<close> this way).
\<close>

definition digit_char :: "nat \<Rightarrow> char" where
  "digit_char d =
     (if d = 0 then CHR ''0'' else if d = 1 then CHR ''1'' else if d = 2 then CHR ''2''
      else if d = 3 then CHR ''3'' else if d = 4 then CHR ''4'' else if d = 5 then CHR ''5''
      else if d = 6 then CHR ''6'' else if d = 7 then CHR ''7'' else if d = 8 then CHR ''8''
      else CHR ''9'')"

fun show_nat :: "nat \<Rightarrow> string" where
  "show_nat n =
     (if n < 10 then [digit_char n] else show_nat (n div 10) @ [digit_char (n mod 10)])"

definition show_int :: "int \<Rightarrow> string" where
  "show_int i = (if i < 0 then CHR ''-'' # show_nat (nat (- i)) else show_nat (nat i))"

subsection \<open>The datastore operations the handlers use\<close>

text \<open>
  \<^verbatim>\<open>prisma.product.findMany({ where: { id: { in: ids } } })\<close>: the rows whose identifier
  occurs in \<open>ids\<close>, each once. The database fixes no order of the rows; the callers use only
  their number and look them up by identifier.
\<close>

definition product_findMany :: "string list \<Rightarrow> store \<Rightarrow> (string \<times> product) list" where
  "product_findMany ids st =
     List.map_filter (\<lambda>i. map_option (Pair i) (products st i)) (remdups ids)"

text \<open>
  \<^verbatim>\<open>prisma.product.update({ where: { id }, data })\<close> throws when no row has the
  identifier, and when the new stock does not fit the 32-bit column (the database refuses
  the value); the row is then left as it was.
\<close>

definition product_update ::
  "string \<Rightarrow> (product \<Rightarrow> product) \<Rightarrow> store \<Rightarrow> product result \<times> store" where
  "product_update pid f st =
     (case products st pid of
        None \<Rightarrow> (Throw (PrismaError ''P2025''), st)
      | Some p \<Rightarrow>
          if int32 (stock (f p))
          then (Ok (f p), st\<lparr>products := (products st)(pid \<mapsto> f p)\<rparr>)
          else (Throw (PrismaError ''P2020''), st))"

definition order_update ::
  "string \<Rightarrow> (order \<Rightarrow> order) \<Rightarrow> store \<Rightarrow> order result \<times> store" where
  "order_update oid f st =
     (case orders st oid of
        None \<Rightarrow> (Throw (PrismaError ''P2025''), st)
      | Some ord \<Rightarrow> (Ok (f ord), st\<lparr>orders := (orders st)(oid \<mapsto> f ord)\<rparr>))"

text \<open>
  \<^verbatim>\<open>prisma.order.create\<close> with nested \<^verbatim>\<open>items: { create: ... }\<close>: the order and its
  items are written together or not at all. The identifier is generated for the new row; a
  clash with an existing row is a unique-constraint error.
\<close>

definition order_create :: "string \<Rightarrow> order \<Rightarrow> store \<Rightarrow> order result \<times> store" where
  "order_create oid ord st =
     (case orders st oid of
        Some _ \<Rightarrow> (Throw (PrismaError ''P2002''), st)
      | None \<Rightarrow> (Ok ord, st\<lparr>orders := (orders st)(oid \<mapsto> ord)\<rparr>))"

subsection \<open>The collaborators\<close>

text \<open>
  What the handlers take from outside the repository: the configured webhook secret,
  \<^verbatim>\<open>stripe.webhooks.constructEvent\<close> (raw body, signature header, secret; \<open>Inl\<close> is the
  message of the error it throws), \<^verbatim>\<open>stripe.paymentIntents.create\<close> (\<open>Inl\<close> is the
  message of the error it throws, \<open>Inr\<close> the identifier and the client secret of the
  intent), the outcome of sending a mail, and the identifier generated for a new order.
  Of an event the handler reads \<^verbatim>\<open>event.type\<close> and
  \<^verbatim>\<open>event.data.object.metadata?.orderId\<close>.
\<close>

record event =
  event_type :: string
  metadata_orderId :: "string option"

record env =
  STRIPE_WEBHOOK_SECRET :: string
  constructEvent :: "string \<Rightarrow> string \<Rightarrow> string \<Rightarrow> string + event"
  paymentIntents_create :: "intent_request \<Rightarrow> string + (string \<times> string)"
  sendMail :: "string \<Rightarrow> string \<Rightarrow> order \<Rightarrow> bool"
  uuid :: string

text \<open>
  \<^verbatim>\<open>sendOrderConfirmationEmail(customerEmail, orderId, orderDetails)\<close>: the attempt is
  recorded; the result says whether it threw.
\<close>

definition sendOrderConfirmationEmail ::
  "env \<Rightarrow> string \<Rightarrow> string \<Rightarrow> order \<Rightarrow> store \<Rightarrow> unit result \<times> store" where
  "sendOrderConfirmationEmail e to oid details st =
     (let ok = sendMail e to oid details;
          st' = st\<lparr>mail_attempts := mail_attempts st @
                   [\<lparr>mail_to = to, mail_orderId = oid, mail_delivered = ok\<rparr>]\<rparr>
      in (if ok then Ok () else Throw (Error ''sendMail failed''), st'))"

subsection \<open>Order creation\<close>

record item_input =
  in_productId :: string
  in_quantity :: int

record create_order_body =
  body_items :: "item_input list"
  body_customerEmail :: string

text \<open>
  The callback of \<^verbatim>\<open>items.map\<close> in \<^verbatim>\<open>createOrder\<close>, with the running
  \<^verbatim>\<open>totalAmount\<close> as an accumulator: the first item that fails a check throws. The
  quantity is an integer-valued number; \<^verbatim>\<open>totalAmount += product.price * item.quantity\<close>
  rounds the product and then the sum.
\<close>

fun orderItemsData ::
  "(string \<times> product) list \<Rightarrow> item_input list \<Rightarrow> number \<Rightarrow>
   (order_item list \<times> number) result" where
  "orderItemsData found [] acc = Ok ([], acc)"
| "orderItemsData found (item # rest) acc =
     (case find (\<lambda>p. fst p = in_productId item) found of
        None \<Rightarrow> Throw (AppError (''Product '' @ in_productId item @ '' not found'') 404)
      | Some (_, p) \<Rightarrow>
          if stock p < in_quantity item
          then Throw (AppError
                 (''Insufficient stock for '' @ name p @ ''. Available: '' @
                  show_int (stock p) @ '', Requested: '' @ show_int (in_quantity item))
                 400)
          else
            (case orderItemsData found rest
                    (js_add acc (js_mul (unit_price p) (Finite (of_int (in_quantity item))))) of
               Throw e \<Rightarrow> Throw e
             | Ok (its, t) \<Rightarrow>
                 Ok (\<lparr>productId = in_productId item, price = unit_price p,
                      quantity = in_quantity item\<rparr> # its, t)))"

definition createOrder_try :: "env \<Rightarrow> create_order_body \<Rightarrow> store \<Rightarrow> response result \<times> store" where
  "createOrder_try e body st =
     (let productIds = map in_productId (body_items body);
          found = product_findMany productIds st
      in if length found \<noteq> length productIds
         then (Throw (AppError ''One or more products not found'' 404), st)
         else
           (case orderItemsData found (body_items body) (Finite 0) of
              Throw ex \<Rightarrow> (Throw ex, st)
            | Ok (orderItems, amt) \<Rightarrow>
                (case order_create (uuid e)
                        \<lparr>customerEmail = body_customerEmail body, totalAmount = amt,
                         status = PENDING, stripePaymentIntentId = None,
                         items = orderItems\<rparr> st of
                   (Throw ex, st') \<Rightarrow> (Throw ex, st')
                 | (Ok ord, st') \<Rightarrow>
                     (Ok (sendSuccess (OrderData (uuid e) ord)
                            ''Order created successfully'' 201), st'))))"

definition createOrder :: "env \<Rightarrow> create_order_body \<Rightarrow> store \<Rightarrow> response \<times> store" where
  "createOrder e body st =
     (case createOrder_try e body st of
        (Ok r, st') \<Rightarrow> (r, st')
      | (Throw ex, st') \<Rightarrow>
          (case ex of
             AppError m c \<Rightarrow> sendError m c
           | _ \<Rightarrow> sendError ''Failed to create order'' 500,
           logger (LogError ''Error in createOrder'') st'))"

subsection \<open>Payment-intent issuance\<close>

definition createPaymentIntent_try :: "env \<Rightarrow> string \<Rightarrow> store \<Rightarrow> response result \<times> store" where
  "createPaymentIntent_try e oid st =
     (case orders st oid of
        None \<Rightarrow> (Throw (AppError ''Order not found'' 404), st)
      | Some ord \<Rightarrow>
          if status ord \<noteq> PENDING
          then (Throw (AppError ''Order is not in pending status'' 400), st)
          else
            (let amountInCents = Math_round (js_mul (totalAmount ord) (Finite 100));
                 request = \<lparr>amount = amountInCents, currency = ''usd'', meta_orderId = oid,
                            meta_customerEmail = customerEmail ord\<rparr>;
                 st1 = st\<lparr>intent_requests := intent_requests st @ [request]\<rparr>
             in case paymentIntents_create e request of
                  Inl m \<Rightarrow> (Throw (StripeError m), st1)
                | Inr (intent_id, client_secret) \<Rightarrow>
                    (case order_update oid
                            (\<lambda>r. r\<lparr>stripePaymentIntentId := Some intent_id\<rparr>) st1 of
                       (Throw ex, st2) \<Rightarrow> (Throw ex, st2)
                     | (Ok updatedOrder, st2) \<Rightarrow>
                         (Ok (sendSuccess (IntentData oid updatedOrder client_secret)
                                ''Payment intent created successfully'' 200), st2))))"

definition createPaymentIntent :: "env \<Rightarrow> string \<Rightarrow> store \<Rightarrow> response \<times> store" where
  "createPaymentIntent e oid st =
     (case createPaymentIntent_try e oid st of
        (Ok r, st') \<Rightarrow> (r, st')
      | (Throw ex, st') \<Rightarrow>
          (case ex of
             AppError m c \<Rightarrow> sendError m c
           | _ \<Rightarrow> sendError ''Failed to create payment intent'' 500,
           logger (LogError ''Error in createPaymentIntent'') st'))"

subsection \<open>Stock decrements\<close>

text \<open>\<^verbatim>\<open>data: { stock: { decrement: item.quantity } }\<close>\<close>

definition decrement :: "int \<Rightarrow> product \<Rightarrow> product" where
  "decrement q p = p\<lparr>stock := stock p - q\<rparr>"

text \<open>
  The loop of the webhook handler: no \<^verbatim>\<open>try\<close> around the update, so the first update
  that throws ends the loop, with the earlier decrements applied.
\<close>

fun decrementStock :: "order_item list \<Rightarrow> store \<Rightarrow> unit result \<times> store" where
  "decrementStock [] st = (Ok (), st)"
| "decrementStock (item # rest) st =
     (case product_update (productId item) (decrement (quantity item)) st of
        (Throw ex, st') \<Rightarrow> (Throw ex, st')
      | (Ok _, st') \<Rightarrow> decrementStock rest st')"

text \<open>
  The loop of \<^verbatim>\<open>updateOrderStatus\<close>: each update has its own \<^verbatim>\<open>try/catch\<close>, which
  logs the failure and goes on with the next item.
\<close>

fun decrementStockLogged :: "order_item list \<Rightarrow> store \<Rightarrow> store" where
  "decrementStockLogged [] st = st"
| "decrementStockLogged (item # rest) st =
     (case product_update (productId item) (decrement (quantity item)) st of
        (Throw ex, st') \<Rightarrow>
          decrementStockLogged rest
            (logger (LogError (''Failed to update stock for product '' @ productId item)) st')
      | (Ok _, st') \<Rightarrow> decrementStockLogged rest st')"

subsection \<open>Admin status override\<close>

text \<open>
  \<^verbatim>\<open>validStatuses.includes(status)\<close> on the string of the request body, and the value of
  the enumeration the string denotes.
\<close>

definition validStatuses :: "string list" where
  "validStatuses = [''PENDING'', ''PAID'', ''FAILED'', ''CANCELLED'']"

definition status_of_string :: "string \<Rightarrow> order_status" where
  "status_of_string s =
     (if s = ''PENDING'' then PENDING else if s = ''PAID'' then PAID
      else if s = ''FAILED'' then FAILED else CANCELLED)"

definition updateOrderStatus_try ::
  "env \<Rightarrow> string \<Rightarrow> string \<Rightarrow> store \<Rightarrow> response result \<times> store" where
  "updateOrderStatus_try e oid s st =
     (case orders st oid of
        None \<Rightarrow> (Throw (AppError ''Order not found'' 404), st)
      | Some ord \<Rightarrow>
          if s \<notin> set validStatuses
          then (Throw (AppError
                  (''Invalid status. Must be one of: PENDING, PAID, FAILED, CANCELLED'') 400), st)
          else
            (case order_update oid (\<lambda>r. r\<lparr>status := status_of_string s\<rparr>) st of
               (Throw ex, st1) \<Rightarrow> (Throw ex, st1)
             | (Ok updatedOrder, st1) \<Rightarrow>
                 (let st3 =
                    (if s = ''PAID'' \<and> status ord \<noteq> PAID
                     then
                       (let st2 = decrementStockLogged (items ord) st1
                        in case sendOrderConfirmationEmail e (customerEmail ord) oid
                                  updatedOrder st2 of
                             (Throw ex, st') \<Rightarrow>
                               logger (LogError ''Failed to send confirmation email'') st'
                           | (Ok _, st') \<Rightarrow> st')
                     else st1)
                  in (Ok (sendSuccess (OrderData oid updatedOrder)
                            ''Order status updated successfully'' 200), st3))))"

definition updateOrderStatus :: "env \<Rightarrow> string \<Rightarrow> string \<Rightarrow> store \<Rightarrow> response \<times> store" where
  "updateOrderStatus e oid s st =
     (case updateOrderStatus_try e oid s st of
        (Ok r, st') \<Rightarrow> (r, st')
      | (Throw ex, st') \<Rightarrow>
          (case ex of
             AppError m c \<Rightarrow> sendError m c
           | _ \<Rightarrow> sendError ''Failed to update order status'' 500,
           logger (LogError ''Error in updateOrderStatus'') st'))"

subsection \<open>Settlement handler (webhook)\<close>

record webhook_request =
  stripe_signature :: "string option"
  raw_body :: string

text \<open>
  The arm \<^verbatim>\<open>case 'payment_intent.succeeded'\<close> of the \<^verbatim>\<open>switch\<close>. The tests
  \<^verbatim>\<open>if (!sig)\<close> and \<^verbatim>\<open>if (orderId)\<close> are JavaScript truthiness: an absent value
  and the empty string are both falsy.
\<close>

definition on_succeeded :: "env \<Rightarrow> event \<Rightarrow> store \<Rightarrow> unit result \<times> store" where
  "on_succeeded e ev st =
     (case metadata_orderId ev of
        None \<Rightarrow> (Ok (), st)
      | Some orderId \<Rightarrow>
          if orderId = [] then (Ok (), st)
          else
           (case orders st orderId of
              None \<Rightarrow> (Ok (), st)
            | Some ord \<Rightarrow>
                if status ord = PENDING
                then
                  (case order_update orderId (\<lambda>r. r\<lparr>status := PAID\<rparr>) st of
                     (Throw ex, st1) \<Rightarrow> (Throw ex, st1)
                   | (Ok updatedOrder, st1) \<Rightarrow>
                       (case decrementStock (items ord) st1 of
                          (Throw ex, st2) \<Rightarrow> (Throw ex, st2)
                        | (Ok _, st2) \<Rightarrow>
                            (case sendOrderConfirmationEmail e (customerEmail ord) orderId
                                    updatedOrder st2 of
                               (Throw ex, st3) \<Rightarrow>
                                 (Ok (), logger (LogError ''Failed to send confirmation email'') st3)
                             | (Ok _, st3) \<Rightarrow>
                                 (Ok (), logger (LogInfo (''Order '' @ orderId @
                                           '' confirmed and email sent'')) st3))))
                else (Ok (), st)))"

text \<open>The arm \<^verbatim>\<open>case 'payment_intent.payment_failed'\<close>.\<close>

definition on_payment_failed :: "event \<Rightarrow> store \<Rightarrow> unit result \<times> store" where
  "on_payment_failed ev st =
     (case metadata_orderId ev of
        None \<Rightarrow> (Ok (), st)
      | Some failedOrderId \<Rightarrow>
          if failedOrderId = [] then (Ok (), st)
          else
           (case order_update failedOrderId (\<lambda>r. r\<lparr>status := FAILED\<rparr>) st of
              (Throw ex, st1) \<Rightarrow> (Throw ex, st1)
            | (Ok _, st1) \<Rightarrow>
                (Ok (), logger (LogWarn (''Order '' @ failedOrderId @ '' payment failed'')) st1)))"

definition handleStripeWebhook_try ::
  "env \<Rightarrow> webhook_request \<Rightarrow> store \<Rightarrow> response result \<times> store" where
  "handleStripeWebhook_try e req st =
     (case stripe_signature req of
        None \<Rightarrow> (Ok (sendError ''Missing stripe-signature header'' 400), st)
      | Some sig \<Rightarrow>
        if sig = [] then (Ok (sendError ''Missing stripe-signature header'' 400), st)
        else if STRIPE_WEBHOOK_SECRET e = []
        then (Throw (Error ''STRIPE_WEBHOOK_SECRET is not set''), st)
        else
        (case constructEvent e (raw_body req) sig (STRIPE_WEBHOOK_SECRET e) of
           Inl err_message \<Rightarrow>
             (Ok (sendError (''Webhook Error: '' @ err_message) 400),
              logger (LogError ''Webhook signature verification failed'') st)
         | Inr ev \<Rightarrow>
             (case (if event_type ev = ''payment_intent.succeeded'' then on_succeeded e ev st
                    else if event_type ev = ''payment_intent.payment_failed''
                    then on_payment_failed ev st
                    else (Ok (), logger (LogInfo (''Unhandled webhook event type: '' @
                                           event_type ev)) st)) of
                (Throw ex, st') \<Rightarrow> (Throw ex, st')
              | (Ok _, st') \<Rightarrow>
                  (Ok (sendSuccess Received ''Webhook processed successfully'' 200), st'))))"

definition handleStripeWebhook :: "env \<Rightarrow> webhook_request \<Rightarrow> store \<Rightarrow> response \<times> store" where
  "handleStripeWebhook e req st =
     (case handleStripeWebhook_try e req st of
        (Ok r, st') \<Rightarrow> (r, st')
      | (Throw ex, st') \<Rightarrow>
          (sendError ''Webhook processing failed'' 500,
           logger (LogError ''Error in handleStripeWebhook'') st'))"

subsection \<open>Net effect of the decrement loops\<close>

text \<open>
  The quantity the items of an order ask of one product: the sum of the quantities of the
  items that reference it (a single quantity when the order has one item for the product).
\<close>

definition ordered_quantity :: "string \<Rightarrow> order_item list \<Rightarrow> int" where
  "ordered_quantity pid its = sum_list (map quantity (filter (\<lambda>it. productId it = pid) its))"

definition settle_stock :: "order_item list \<Rightarrow> (string \<rightharpoonup> product) \<Rightarrow> (string \<rightharpoonup> product)" where
  "settle_stock its tbl = (\<lambda>pid. map_option (decrement (ordered_quantity pid its)) (tbl pid))"

text \<open>
  Following the specification (4.4), not the code: each item of the order is tried in turn
  against the product table as the earlier items left it. The decrement of an item succeeds
  when its product has a row and the decremented stock fits the column; a decrement that
  fails changes nothing, leaves one entry in the log and does not stop the items after it.
\<close>

definition try_decrement :: "order_item \<Rightarrow> (string \<rightharpoonup> product) \<Rightarrow> (string \<rightharpoonup> product) option" where
  "try_decrement it tbl =
     (case tbl (productId it) of
        None \<Rightarrow> None
      | Some p \<Rightarrow>
          if int32 (stock p - quantity it)
          then Some (tbl(productId it \<mapsto> p\<lparr>stock := stock p - quantity it\<rparr>))
          else None)"

fun decrement_each ::
  "order_item list \<Rightarrow> (string \<rightharpoonup> product) \<Rightarrow> (string \<rightharpoonup> product) \<times> log_entry list" where
  "decrement_each [] tbl = (tbl, [])"
| "decrement_each (it # its) tbl =
     (case try_decrement it tbl of
        Some tbl' \<Rightarrow> decrement_each its tbl'
      | None \<Rightarrow>
          (fst (decrement_each its tbl),
           LogError (''Failed to update stock for product '' @ productId it) #
             snd (decrement_each its tbl)))"

text \<open>
  The store after the webhook has settled the pending order \<open>oid\<close>: the order is paid, the
  stock of its products is decremented, the confirmation mail has been attempted and its
  outcome logged.
\<close>

definition settled :: "env \<Rightarrow> string \<Rightarrow> order \<Rightarrow> store \<Rightarrow> store" where
  "settled e oid ord st =
     (let paid = ord\<lparr>status := PAID\<rparr>;
          ok = sendMail e (customerEmail ord) oid paid
      in st\<lparr>orders := (orders st)(oid \<mapsto> paid),
            products := settle_stock (items ord) (products st),
            mail_attempts := mail_attempts st @
              [\<lparr>mail_to = customerEmail ord, mail_orderId = oid, mail_delivered = ok\<rparr>],
            log := log st @
              [if ok then LogInfo (''Order '' @ oid @ '' confirmed and email sent'')
               else LogError ''Failed to send confirmation email'']\<rparr>)"

subsection \<open>Concrete inputs\<close>

text \<open>
  The scenario of the specification: a product with stock 5 and price 10.00, an order of two
  units of it, and stubs for the collaborators. The stub of \<^verbatim>\<open>constructEvent\<close> accepts
  the signature \<open>''valid''\<close> under the secret \<open>''whsec''\<close> and reads the kind of the event
  from the body; the stub of the mailer fails every time.
\<close>

definition productA :: product where
  "productA = \<lparr>name = ''Widget'', unit_price = Finite 10, stock = 5\<rparr>"

definition productB :: product where
  "productB = \<lparr>name = ''Gadget'', unit_price = Finite (5 / 2), stock = 1\<rparr>"

definition shop :: store where
  "shop = \<lparr>products = [''pA'' \<mapsto> productA, ''pB'' \<mapsto> productB], orders = Map.empty,
           mail_attempts = [], intent_requests = [], log = []\<rparr>"

definition orderA :: "order_status \<Rightarrow> order" where
  "orderA s = \<lparr>customerEmail = ''ann@example.org'', totalAmount = Finite 20, status = s,
               stripePaymentIntentId = None,
               items = [\<lparr>productId = ''pA'', price = Finite 10, quantity = 2\<rparr>]\<rparr>"

definition shop_with :: "order_status \<Rightarrow> store" where
  "shop_with s = shop\<lparr>orders := [''o1'' \<mapsto> orderA s]\<rparr>"

text \<open>
  A second catalogue, for the edges of the number types. The sticker costs 0.1, that is the
  double nearest to it; the bead costs 0.015 likewise; the stock of the relic is the least
  value of the column, so that no decrement of it succeeds. The order \<open>o1\<close> asks for one
  relic and two stickers, the order \<open>o2\<close> for one bead.
\<close>

definition sticker :: product where
  "sticker = \<lparr>name = ''Sticker'',
              unit_price = Finite (3602879701896397 / 36028797018963968), stock = 10\<rparr>"

definition bead :: product where
  "bead = \<lparr>name = ''Bead'',
           unit_price = Finite (1080863910568919 / 72057594037927936), stock = 10\<rparr>"

definition relic :: product where
  "relic = \<lparr>name = ''Relic'', unit_price = Finite 1, stock = - 2147483648\<rparr>"

definition kiosk :: store where
  "kiosk = \<lparr>products = [''pS'' \<mapsto> sticker, ''pT'' \<mapsto> bead, ''pZ'' \<mapsto> relic],
            orders = Map.empty, mail_attempts = [], intent_requests = [], log = []\<rparr>"

definition orderZ :: order where
  "orderZ = \<lparr>customerEmail = ''bob@example.org'',
             totalAmount = Finite (5404319552844595 / 4503599627370496), status = PENDING,
             stripePaymentIntentId = None,
             items = [\<lparr>productId = ''pZ'', price = Finite 1, quantity = 1\<rparr>,
                      \<lparr>productId = ''pS'',
                       price = Finite (3602879701896397 / 36028797018963968),
                       quantity = 2\<rparr>]\<rparr>"

definition orderT :: order where
  "orderT = \<lparr>customerEmail = ''bob@example.org'',
             totalAmount = Finite (1080863910568919 / 72057594037927936), status = PENDING,
             stripePaymentIntentId = None,
             items = [\<lparr>productId = ''pT'',
                       price = Finite (1080863910568919 / 72057594037927936),
                       quantity = 1\<rparr>]\<rparr>"

definition kiosk_open :: store where
  "kiosk_open = kiosk\<lparr>orders := [''o1'' \<mapsto> orderZ, ''o2'' \<mapsto> orderT]\<rparr>"

definition stub_env :: env where
  "stub_env =
     \<lparr>STRIPE_WEBHOOK_SECRET = ''whsec'',
      constructEvent = (\<lambda>body sig secret.
         if sig = ''valid'' \<and> secret = ''whsec''
         then Inr \<lparr>event_type = body, metadata_orderId = Some ''o1''\<rparr>
         else Inl ''No signatures found matching the expected signature for payload''),
      paymentIntents_create = (\<lambda>r. Inr (''pi_1'', ''pi_1_secret'')),
      sendMail = (\<lambda>to oid details. False),
      uuid = ''o1''\<rparr>"

definition webhook :: "string \<Rightarrow> string \<Rightarrow> webhook_request" where
  "webhook sig kind = \<lparr>stripe_signature = Some sig, raw_body = kind\<rparr>"

definition order_body :: "(string \<times> int) list \<Rightarrow> create_order_body" where
  "order_body xs =
     \<lparr>body_items = map (\<lambda>(i, q). \<lparr>in_productId = i, in_quantity = q\<rparr>) xs,
      body_customerEmail = ''ann@example.org''\<rparr>"

section \<open>Properties\<close>

subsection \<open>The rounding of doubles\<close>

text \<open>
  The bisection finds the binade of a normal magnitude and gives the least exponent to a
  subnormal one; the rounded value is within half the spacing of the binade.
\<close>

lemma round_half_even_near: "\<bar>of_int (round_half_even x) - x\<bar> \<le> 1 / 2"
proof -
  have "of_int \<lfloor>x\<rfloor> \<le> x" "x < of_int \<lfloor>x\<rfloor> + 1"
    by linarith+
  then show ?thesis
    by (auto simp: round_half_even_def Let_def)
qed

lemma binade_bounds:
  assumes "lo < hi" "hi - lo \<le> 2 ^ n" "2 powi lo \<le> a" "a < 2 powi hi"
  shows "2 powi (binade n lo hi a) \<le> a \<and> a < 2 powi (binade n lo hi a + 1)"
  using assms
proof (induction n arbitrary: lo hi)
  case 0
  then have "hi = lo + 1" by simp
  with 0 show ?case by simp
next
  case (Suc n)
  define mid where "mid = (lo + hi) div 2"
  show ?case
  proof (cases "2 powi mid \<le> a")
    case True
    have "mid < hi" "hi - mid \<le> 2 ^ n"
      using Suc.prems(1,2) by (simp_all add: mid_def)
    with True Suc.prems(4) have "2 powi (binade n mid hi a) \<le> a \<and>
        a < 2 powi (binade n mid hi a + 1)"
      by (intro Suc.IH)
    with True show ?thesis
      by (simp add: mid_def [symmetric] Let_def)
  next
    case False
    then have a: "a < 2 powi mid" by simp
    have "lo \<noteq> mid"
      using False Suc.prems(3) by auto
    moreover have "lo \<le> mid"
      using Suc.prems(1) by (simp add: mid_def)
    ultimately have "lo < mid" by simp
    moreover have "mid - lo \<le> 2 ^ n"
      using Suc.prems(1,2) by (simp add: mid_def)
    ultimately have "2 powi (binade n lo mid a) \<le> a \<and> a < 2 powi (binade n lo mid a + 1)"
      using Suc.prems(3) a by (intro Suc.IH)
    with False show ?thesis
      by (simp add: mid_def [symmetric] Let_def)
  qed
qed

lemma binade_subnormal:
  assumes "a < 2 powi lo" "lo \<le> hi"
  shows "binade n lo hi a = lo"
  using assms
proof (induction n arbitrary: hi)
  case 0
  show ?case by simp
next
  case (Suc n)
  define mid where "mid = (lo + hi) div 2"
  have m: "lo \<le> mid"
    using Suc.prems(2) by (simp add: mid_def)
  then have "(2::rat) powi lo \<le> 2 powi mid"
    by (intro power_int_increasing) simp_all
  with Suc.prems(1) have "\<not> 2 powi mid \<le> a" by simp
  with Suc.IH [OF Suc.prems(1) m] show ?case
    by (simp add: mid_def [symmetric] Let_def)
qed

lemma exponent_normal:
  assumes "2 powi (- 1022) \<le> a" "a < 2 powi 1024"
  shows "2 powi (exponent a) \<le> a \<and> a < 2 powi (exponent a + 1)"
  unfolding exponent_def using assms by (intro binade_bounds) simp_all

lemma exponent_subnormal: "a < 2 powi (- 1022) \<Longrightarrow> exponent a = - 1022"
  unfolding exponent_def by (rule binade_subnormal) simp_all

lemma fl_near:
  assumes "fl x = Finite y"
  shows "\<bar>y - x\<bar> \<le> 2 powi (exponent \<bar>x\<bar> - 53)"
proof -
  define q where "q = exponent \<bar>x\<bar> - 52"
  define m where "m = round_half_even (\<bar>x\<bar> / 2 powi q)"
  have pos: "(0::rat) < 2 powi q"
    by (simp add: power_int_def)
  from assms have y: "y = (if 0 < x then of_int m * 2 powi q else - (of_int m * 2 powi q))"
    by (simp add: fl_def Let_def q_def m_def split: if_splits)
  have "\<bar>of_int m - \<bar>x\<bar> / 2 powi q\<bar> \<le> 1 / 2"
    unfolding m_def by (rule round_half_even_near)
  then have "\<bar>of_int m - \<bar>x\<bar> / 2 powi q\<bar> * 2 powi q \<le> 1 / 2 * 2 powi q"
    using pos by (intro mult_right_mono) simp_all
  moreover have "of_int m * 2 powi q - \<bar>x\<bar> = (of_int m - \<bar>x\<bar> / 2 powi q) * 2 powi q"
    using pos by (simp add: field_simps)
  then have "\<bar>of_int m * 2 powi q - \<bar>x\<bar>\<bar> = \<bar>of_int m - \<bar>x\<bar> / 2 powi q\<bar> * 2 powi q"
    using pos by (simp only: abs_mult abs_of_pos)
  ultimately have "\<bar>of_int m * 2 powi q - \<bar>x\<bar>\<bar> \<le> 2 powi q / 2"
    by simp
  moreover have "\<bar>y - x\<bar> = \<bar>of_int m * 2 powi q - \<bar>x\<bar>\<bar>"
    by (cases "0 < x") (simp_all add: y abs_minus_commute)
  moreover have "(2::rat) powi q / 2 = 2 powi (exponent \<bar>x\<bar> - 53)"
    by (simp add: q_def power_int_diff)
  ultimately show ?thesis
    by simp
qed

subsection \<open>The decrement loops\<close>

lemma decrement_decrement: "decrement a (decrement b p) = decrement (b + a) p"
  by (simp add: decrement_def algebra_simps)

lemma decrement_zero: "decrement 0 p = p"
  by (simp add: decrement_def)

lemma ordered_quantity_Nil: "ordered_quantity pid [] = 0"
  by (simp add: ordered_quantity_def)

lemma ordered_quantity_Cons:
  "ordered_quantity pid (it # its) =
     (if productId it = pid then quantity it else 0) + ordered_quantity pid its"
  by (simp add: ordered_quantity_def)

lemma ordered_quantity_nonneg:
  "\<forall>it \<in> set its. 0 \<le> quantity it \<Longrightarrow> 0 \<le> ordered_quantity pid its"
  by (induction its) (simp_all add: ordered_quantity_Nil ordered_quantity_Cons)

lemma settle_stock_Nil: "settle_stock [] tbl = tbl"
proof (rule ext)
  fix pid
  show "settle_stock [] tbl pid = tbl pid"
    by (cases "tbl pid") (simp_all add: settle_stock_def ordered_quantity_Nil decrement_zero)
qed

lemma settle_stock_Cons:
  assumes "tbl (productId it) = Some p"
  shows "settle_stock its (tbl(productId it \<mapsto> decrement (quantity it) p)) =
         settle_stock (it # its) tbl"
  using assms
  by (auto simp: settle_stock_def ordered_quantity_Cons decrement_decrement fun_eq_iff)

lemma settle_stock_eq_None: "settle_stock its tbl pid = None \<longleftrightarrow> tbl pid = None"
  by (simp add: settle_stock_def)

lemma product_update_decrement:
  "product_update (productId it) (decrement (quantity it)) st =
     (case try_decrement it (products st) of
        Some tbl' \<Rightarrow>
          (Ok (decrement (quantity it) (the (products st (productId it)))),
           st\<lparr>products := tbl'\<rparr>)
      | None \<Rightarrow>
          (Throw (PrismaError (if products st (productId it) = None then ''P2025''
                               else ''P2020'')), st))"
  by (simp add: product_update_def try_decrement_def decrement_def split: option.split)

text \<open>
  When the quantities are not negative and the stock of every referenced product is within
  the range of the column before the loop and after all its decrements, no decrement fails
  and the table ends as \<open>settle_stock\<close> says.
\<close>

lemma decrement_each_in_range:
  assumes "\<forall>it \<in> set its. 0 \<le> quantity it"
    and "\<forall>it \<in> set its. \<exists>p. tbl (productId it) = Some p \<and> int32 (stock p) \<and>
           int32 (stock p - ordered_quantity (productId it) its)"
  shows "decrement_each its tbl = (settle_stock its tbl, [])"
  using assms
proof (induction its arbitrary: tbl)
  case Nil
  show ?case by (simp add: settle_stock_Nil)
next
  case (Cons it its)
  from Cons.prems(2) obtain p where p: "tbl (productId it) = Some p"
    and lo: "int32 (stock p)"
    and hi: "int32 (stock p - ordered_quantity (productId it) (it # its))"
    by auto
  have q: "0 \<le> quantity it" and rest: "\<forall>x \<in> set its. 0 \<le> quantity x"
    using Cons.prems(1) by simp_all
  have oq: "0 \<le> ordered_quantity (productId it) its"
    using rest by (rule ordered_quantity_nonneg)
  have fits: "int32 (stock p - quantity it)"
    using lo hi q oq by (simp add: int32_def ordered_quantity_Cons)
  define tbl1 where "tbl1 = tbl(productId it \<mapsto> decrement (quantity it) p)"
  have step: "try_decrement it tbl = Some tbl1"
    using p fits by (simp add: try_decrement_def tbl1_def decrement_def)
  have "\<exists>p'. tbl1 (productId x) = Some p' \<and> int32 (stock p') \<and>
      int32 (stock p' - ordered_quantity (productId x) its)" if x: "x \<in> set its" for x
  proof (cases "productId x = productId it")
    case True
    have "int32 (stock p - quantity it - ordered_quantity (productId it) its)"
      using hi by (simp add: int32_def ordered_quantity_Cons)
    with fits True show ?thesis
      by (simp add: tbl1_def decrement_def)
  next
    case False
    from Cons.prems(2) x obtain p' where "tbl (productId x) = Some p'" "int32 (stock p')"
      "int32 (stock p' - ordered_quantity (productId x) (it # its))"
      by auto
    with False show ?thesis
      by (simp add: tbl1_def ordered_quantity_Cons)
  qed
  then have "decrement_each its tbl1 = (settle_stock its tbl1, [])"
    using rest by (intro Cons.IH) auto
  moreover have "settle_stock its tbl1 = settle_stock (it # its) tbl"
    unfolding tbl1_def using p by (rule settle_stock_Cons)
  ultimately show ?case
    by (simp add: step)
qed

text \<open>The loop of the webhook handler, when no decrement fails.\<close>

lemma decrementStock_no_failure:
  "snd (decrement_each its (products st)) = [] \<Longrightarrow>
   decrementStock its st = (Ok (), st\<lparr>products := fst (decrement_each its (products st))\<rparr>)"
proof (induction its arbitrary: st)
  case Nil
  show ?case by simp
next
  case (Cons it its)
  from Cons.prems obtain tbl1 where step: "try_decrement it (products st) = Some tbl1"
    by (cases "try_decrement it (products st)") auto
  with Cons.prems have "snd (decrement_each its (products (st\<lparr>products := tbl1\<rparr>))) = []"
    by simp
  from Cons.IH [OF this] show ?case
    by (simp add: product_update_decrement step)
qed

lemma decrementStock_in_range:
  assumes "\<forall>it \<in> set its. 0 \<le> quantity it"
    and "\<forall>it \<in> set its. \<exists>p. products st (productId it) = Some p \<and> int32 (stock p) \<and>
           int32 (stock p - ordered_quantity (productId it) its)"
  shows "decrementStock its st = (Ok (), st\<lparr>products := settle_stock its (products st)\<rparr>)"
  using decrementStock_no_failure [of its st] decrement_each_in_range [OF assms]
  by simp

text \<open>
  The loop of \<^verbatim>\<open>updateOrderStatus\<close> does what the specification describes: it refines
  \<open>decrement_each\<close>.
\<close>

lemma decrementStockLogged_eq:
  "decrementStockLogged its st =
     st\<lparr>products := fst (decrement_each its (products st)),
        log := log st @ snd (decrement_each its (products st))\<rparr>"
proof (induction its arbitrary: st)
  case Nil
  show ?case by simp
next
  case (Cons it its)
  show ?case
  proof (cases "try_decrement it (products st)")
    case None
    define st1 where
      "st1 = logger (LogError (''Failed to update stock for product '' @ productId it)) st"
    have "decrementStockLogged (it # its) st = decrementStockLogged its st1"
      by (simp add: product_update_decrement None st1_def)
    also have "\<dots> = st1\<lparr>products := fst (decrement_each its (products st1)),
        log := log st1 @ snd (decrement_each its (products st1))\<rparr>"
      by (rule Cons.IH)
    also have "\<dots> = st\<lparr>products := fst (decrement_each (it # its) (products st)),
        log := log st @ snd (decrement_each (it # its) (products st))\<rparr>"
      by (simp add: st1_def logger_def None)
    finally show ?thesis .
  next
    case (Some tbl1)
    define st1 where "st1 = st\<lparr>products := tbl1\<rparr>"
    have "decrementStockLogged (it # its) st = decrementStockLogged its st1"
      by (simp add: product_update_decrement Some st1_def)
    also have "\<dots> = st1\<lparr>products := fst (decrement_each its (products st1)),
        log := log st1 @ snd (decrement_each its (products st1))\<rparr>"
      by (rule Cons.IH)
    also have "\<dots> = st\<lparr>products := fst (decrement_each (it # its) (products st)),
        log := log st @ snd (decrement_each (it # its) (products st))\<rparr>"
      by (simp add: st1_def Some)
    finally show ?thesis .
  qed
qed

subsection \<open>The webhook handler\<close>

lemma ordered_quantity_distinct:
  "distinct (map productId its) \<Longrightarrow> it \<in> set its \<Longrightarrow>
   ordered_quantity (productId it) its = quantity it"
proof (induction its)
  case Nil
  then show ?case by simp
next
  case (Cons x xs)
  show ?case
  proof (cases "it = x")
    case True
    have "filter (\<lambda>y. productId y = productId x) xs = []"
      using Cons.prems(1) by (force simp: filter_empty_conv image_iff)
    then show ?thesis
      using True by (simp add: ordered_quantity_def)
  next
    case False
    then have "it \<in> set xs" using Cons.prems(2) by simp
    moreover from this have "productId x \<noteq> productId it"
      using Cons.prems(1) by auto
    ultimately show ?thesis
      using Cons.IH Cons.prems(1) by (simp add: ordered_quantity_Cons)
  qed
qed

lemma settle_stock_Some:
  "tbl pid = Some p \<Longrightarrow>
   settle_stock its tbl pid = Some (p\<lparr>stock := stock p - ordered_quantity pid its\<rparr>)"
  by (simp add: settle_stock_def decrement_def)

lemma on_succeeded_pending:
  assumes oid: "metadata_orderId ev = Some oid" "oid \<noteq> []"
    and ord: "orders st oid = Some ord" "status ord = PENDING"
    and qty: "\<forall>it \<in> set (items ord). 0 \<le> quantity it"
    and fits: "\<forall>it \<in> set (items ord). \<exists>p. products st (productId it) = Some p \<and>
        int32 (stock p) \<and> int32 (stock p - ordered_quantity (productId it) (items ord))"
  shows "on_succeeded e ev st = (Ok (), settled e oid ord st)"
proof -
  define st1 where "st1 = st\<lparr>orders := (orders st)(oid \<mapsto> ord\<lparr>status := PAID\<rparr>)\<rparr>"
  have upd: "order_update oid (\<lambda>r. r\<lparr>status := PAID\<rparr>) st = (Ok (ord\<lparr>status := PAID\<rparr>), st1)"
    using ord by (simp add: order_update_def st1_def)
  have "\<forall>it \<in> set (items ord). \<exists>p. products st1 (productId it) = Some p \<and>
        int32 (stock p) \<and> int32 (stock p - ordered_quantity (productId it) (items ord))"
    using fits by (simp add: st1_def)
  with qty have dec: "decrementStock (items ord) st1 =
      (Ok (), st1\<lparr>products := settle_stock (items ord) (products st1)\<rparr>)"
    by (rule decrementStock_in_range)
  define st2 where "st2 = st1\<lparr>products := settle_stock (items ord) (products st1)\<rparr>"
  have "on_succeeded e ev st =
      (case sendOrderConfirmationEmail e (customerEmail ord) oid (ord\<lparr>status := PAID\<rparr>) st2 of
         (Throw ex, st3) \<Rightarrow>
           (Ok (), logger (LogError ''Failed to send confirmation email'') st3)
       | (Ok _, st3) \<Rightarrow>
           (Ok (), logger (LogInfo (''Order '' @ oid @ '' confirmed and email sent'')) st3))"
    using oid ord by (simp add: on_succeeded_def upd dec st2_def)
  also have "\<dots> = (Ok (), settled e oid ord st)"
    by (simp add: sendOrderConfirmationEmail_def settled_def Let_def logger_def st2_def st1_def)
  finally show ?thesis .
qed

lemma on_succeeded_noop:
  assumes "metadata_orderId ev = None \<or> metadata_orderId ev = Some [] \<or>
     (\<exists>oid. metadata_orderId ev = Some oid \<and>
        (orders st oid = None \<or> (\<exists>ord. orders st oid = Some ord \<and> status ord \<noteq> PENDING)))"
  shows "on_succeeded e ev st = (Ok (), st)"
  using assms by (auto simp: on_succeeded_def)

lemma handleStripeWebhook_verified:
  assumes "stripe_signature req = Some sig" "sig \<noteq> []" "STRIPE_WEBHOOK_SECRET e \<noteq> []"
    and "constructEvent e (raw_body req) sig (STRIPE_WEBHOOK_SECRET e) = Inr ev"
  shows "handleStripeWebhook e req st =
     (case (if event_type ev = ''payment_intent.succeeded'' then on_succeeded e ev st
            else if event_type ev = ''payment_intent.payment_failed''
            then on_payment_failed ev st
            else (Ok (), logger (LogInfo (''Unhandled webhook event type: '' @
                                   event_type ev)) st)) of
        (Throw ex, st') \<Rightarrow>
          (sendError ''Webhook processing failed'' 500,
           logger (LogError ''Error in handleStripeWebhook'') st')
      | (Ok _, st') \<Rightarrow> (sendSuccess Received ''Webhook processed successfully'' 200, st'))"
  using assms
  by (simp add: handleStripeWebhook_def handleStripeWebhook_try_def
      split: prod.splits result.splits)

subsection \<open>Settlement of a pending order\<close>

text \<open>
  \<^bold>\<open>C1\<close>, as stated, fails when a decrement does not fit the stock column. The order
  \<open>o1\<close> of the kiosk is PENDING and asks for one relic, whose stock is the least value of
  the column, and two stickers. The status is set to PAID, the first decrement is refused by
  the database, and the loop of the webhook handler has no \<^verbatim>\<open>catch\<close>: the handler
  answers 500, no stock has changed and no mail is attempted.
\<close>

theorem webhook_succeeded_settles_pending_order_counterexample:
  "map_option status (orders kiosk_open ''o1'') = Some PENDING \<and>
   map_option items (orders kiosk_open ''o1'') =
     Some [\<lparr>productId = ''pZ'', price = Finite 1, quantity = 1\<rparr>,
           \<lparr>productId = ''pS'', price = Finite (3602879701896397 / 36028797018963968),
            quantity = 2\<rparr>] \<and>
   map_option stock (products kiosk_open ''pZ'') = Some (- 2147483648) \<and>
   map_option stock (products kiosk_open ''pS'') = Some 10 \<and>
   fst (handleStripeWebhook stub_env (webhook ''valid'' ''payment_intent.succeeded'') kiosk_open) =
     \<lparr>statusCode = 500, success = False, message = ''Webhook processing failed'',
      data = NoData\<rparr> \<and>
   map_option status
     (orders (snd (handleStripeWebhook stub_env
                     (webhook ''valid'' ''payment_intent.succeeded'') kiosk_open)) ''o1'') =
     Some PAID \<and>
   map_option stock
     (products (snd (handleStripeWebhook stub_env
                       (webhook ''valid'' ''payment_intent.succeeded'') kiosk_open)) ''pZ'') =
     Some (- 2147483648) \<and>
   map_option stock
     (products (snd (handleStripeWebhook stub_env
                       (webhook ''valid'' ''payment_intent.succeeded'') kiosk_open)) ''pS'') =
     Some 10 \<and>
   mail_attempts (snd (handleStripeWebhook stub_env
                         (webhook ''valid'' ''payment_intent.succeeded'') kiosk_open)) = []"
  by (simp add: handleStripeWebhook_def handleStripeWebhook_try_def on_succeeded_def
      order_update_def product_update_def decrement_def int32_def logger_def sendError_def
      webhook_def stub_env_def kiosk_open_def kiosk_def orderZ_def relic_def sticker_def)

text \<open>
  \<^bold>\<open>C1\<close>, amended. A \<^verbatim>\<open>payment_intent.succeeded\<close> event that passes signature
  verification and whose \<^verbatim>\<open>metadata.orderId\<close> names an order in status PENDING, whose
  items have quantities that are not negative and reference rows of the product table (the
  foreign key of the order items) whose stock lies within the 32-bit range of the column
  both before the decrements and after them: the handler acknowledges with success, the order
  is PAID, every product has its stock decremented by the quantities of the items of the
  order that reference it (by exactly the quantity of its item when no two items reference
  the same product), no other product changes, and the confirmation mail is attempted once.
  Whether the mail was delivered shows in the record of the attempt and in the log entry
  only: a failed mail undoes neither the status change nor the decrements, and the
  acknowledgement is the same.
\<close>

theorem webhook_succeeded_settles_pending_order:
  assumes sig: "stripe_signature req = Some sig" "sig \<noteq> []"
    and secret: "STRIPE_WEBHOOK_SECRET e \<noteq> []"
    and verified: "constructEvent e (raw_body req) sig (STRIPE_WEBHOOK_SECRET e) = Inr ev"
    and kind: "event_type ev = ''payment_intent.succeeded''"
    and oid: "metadata_orderId ev = Some oid" "oid \<noteq> []"
    and ord: "orders st oid = Some ord" "status ord = PENDING"
    and qty: "\<forall>it \<in> set (items ord). 0 \<le> quantity it"
    and fits: "\<forall>it \<in> set (items ord). \<exists>p. products st (productId it) = Some p \<and>
        int32 (stock p) \<and> int32 (stock p - ordered_quantity (productId it) (items ord))"
  shows "fst (handleStripeWebhook e req st) =
           \<lparr>statusCode = 200, success = True, message = ''Webhook processed successfully'',
            data = Received\<rparr> \<and>
         orders (snd (handleStripeWebhook e req st)) =
           (orders st)(oid \<mapsto> ord\<lparr>status := PAID\<rparr>) \<and>
         (\<forall>pid. case products st pid of
                  None \<Rightarrow> products (snd (handleStripeWebhook e req st)) pid = None
                | Some p \<Rightarrow> products (snd (handleStripeWebhook e req st)) pid =
                    Some (p\<lparr>stock := stock p - ordered_quantity pid (items ord)\<rparr>)) \<and>
         (distinct (map productId (items ord)) \<longrightarrow>
            (\<forall>it \<in> set (items ord). \<forall>p. products st (productId it) = Some p \<longrightarrow>
               products (snd (handleStripeWebhook e req st)) (productId it) =
                 Some (p\<lparr>stock := stock p - quantity it\<rparr>))) \<and>
         mail_attempts (snd (handleStripeWebhook e req st)) =
           mail_attempts st @
           [\<lparr>mail_to = customerEmail ord, mail_orderId = oid,
             mail_delivered = sendMail e (customerEmail ord) oid (ord\<lparr>status := PAID\<rparr>)\<rparr>] \<and>
         log (snd (handleStripeWebhook e req st)) =
           log st @
           [if sendMail e (customerEmail ord) oid (ord\<lparr>status := PAID\<rparr>)
            then LogInfo (''Order '' @ oid @ '' confirmed and email sent'')
            else LogError ''Failed to send confirmation email'']"
proof -
  have run: "handleStripeWebhook e req st =
      (\<lparr>statusCode = 200, success = True, message = ''Webhook processed successfully'',
        data = Received\<rparr>, settled e oid ord st)"
    by (simp add: handleStripeWebhook_verified [OF sig secret verified] kind
        on_succeeded_pending [OF oid ord qty fits] sendSuccess_def)
  have prods: "products (settled e oid ord st) = settle_stock (items ord) (products st)"
    by (simp add: settled_def Let_def)
  have A: "\<forall>pid. case products st pid of
                  None \<Rightarrow> products (settled e oid ord st) pid = None
                | Some p \<Rightarrow> products (settled e oid ord st) pid =
                    Some (p\<lparr>stock := stock p - ordered_quantity pid (items ord)\<rparr>)"
    by (simp add: prods settle_stock_Some settle_stock_eq_None split: option.split)
  have B: "distinct (map productId (items ord)) \<longrightarrow>
      (\<forall>it \<in> set (items ord). \<forall>p. products st (productId it) = Some p \<longrightarrow>
         products (settled e oid ord st) (productId it) =
           Some (p\<lparr>stock := stock p - quantity it\<rparr>))"
    by (simp add: prods settle_stock_Some ordered_quantity_distinct)
  have C: "orders (settled e oid ord st) = (orders st)(oid \<mapsto> ord\<lparr>status := PAID\<rparr>)"
    by (simp add: settled_def Let_def)
  have D: "mail_attempts (settled e oid ord st) =
           mail_attempts st @
           [\<lparr>mail_to = customerEmail ord, mail_orderId = oid,
             mail_delivered = sendMail e (customerEmail ord) oid (ord\<lparr>status := PAID\<rparr>)\<rparr>]"
    by (simp add: settled_def Let_def)
  have E: "log (settled e oid ord st) =
           log st @
           [if sendMail e (customerEmail ord) oid (ord\<lparr>status := PAID\<rparr>)
            then LogInfo (''Order '' @ oid @ '' confirmed and email sent'')
            else LogError ''Failed to send confirmation email'']"
    by (simp add: settled_def Let_def)
  show ?thesis
    unfolding run fst_conv snd_conv using A B C D E by (intro conjI refl)
qed

theorem webhook_succeeded_settles_pending_order_witness:
  "fst (handleStripeWebhook stub_env (webhook ''valid'' ''payment_intent.succeeded'')
          (shop_with PENDING)) =
     \<lparr>statusCode = 200, success = True, message = ''Webhook processed successfully'',
      data = Received\<rparr> \<and>
   map_option status
     (orders (snd (handleStripeWebhook stub_env (webhook ''valid'' ''payment_intent.succeeded'')
          (shop_with PENDING))) ''o1'') = Some PAID \<and>
   map_option stock
     (products (snd (handleStripeWebhook stub_env (webhook ''valid'' ''payment_intent.succeeded'')
          (shop_with PENDING))) ''pA'') = Some 3 \<and>
   map mail_delivered
     (mail_attempts (snd (handleStripeWebhook stub_env
          (webhook ''valid'' ''payment_intent.succeeded'') (shop_with PENDING)))) = [False]"
  using webhook_succeeded_settles_pending_order
    [where req = "webhook ''valid'' ''payment_intent.succeeded''" and sig = "''valid''"
       and e = stub_env
       and ev = "\<lparr>event_type = ''payment_intent.succeeded'', metadata_orderId = Some ''o1''\<rparr>"
       and oid = "''o1''" and st = "shop_with PENDING" and ord = "orderA PENDING"]
  by (simp add: webhook_def stub_env_def shop_with_def shop_def orderA_def productA_def
      int32_def ordered_quantity_def)

subsection \<open>Events that settle nothing\<close>

text \<open>
  \<^bold>\<open>C2\<close>. A \<^verbatim>\<open>payment_intent.succeeded\<close> event that passes signature verification and
  carries no order identifier (or an empty one), or one that matches no order, or one whose
  order is not in
  status PENDING (for instance already PAID): the handler acknowledges with success and the
  store is left as it was: no order and no product changes, no mail is attempted and
  nothing is logged.
\<close>

theorem webhook_succeeded_noop:
  assumes sig: "stripe_signature req = Some sig" "sig \<noteq> []"
    and secret: "STRIPE_WEBHOOK_SECRET e \<noteq> []"
    and verified: "constructEvent e (raw_body req) sig (STRIPE_WEBHOOK_SECRET e) = Inr ev"
    and kind: "event_type ev = ''payment_intent.succeeded''"
    and guard: "metadata_orderId ev = None \<or> metadata_orderId ev = Some [] \<or>
       (\<exists>oid. metadata_orderId ev = Some oid \<and>
          (orders st oid = None \<or>
           (\<exists>ord. orders st oid = Some ord \<and> status ord \<noteq> PENDING)))"
  shows "handleStripeWebhook e req st =
           (sendSuccess Received ''Webhook processed successfully'' 200, st)"
  by (simp add: handleStripeWebhook_verified [OF sig secret verified] kind
      on_succeeded_noop [OF guard])

theorem webhook_succeeded_noop_witness:
  "handleStripeWebhook stub_env (webhook ''valid'' ''payment_intent.succeeded'') (shop_with PAID) =
     (sendSuccess Received ''Webhook processed successfully'' 200, shop_with PAID) \<and>
   handleStripeWebhook stub_env (webhook ''valid'' ''payment_intent.succeeded'') shop =
     (sendSuccess Received ''Webhook processed successfully'' 200, shop)"
proof
  show "handleStripeWebhook stub_env (webhook ''valid'' ''payment_intent.succeeded'')
      (shop_with PAID) =
     (sendSuccess Received ''Webhook processed successfully'' 200, shop_with PAID)"
    by (rule webhook_succeeded_noop
        [where sig = "''valid''"
           and ev = "\<lparr>event_type = ''payment_intent.succeeded'',
                     metadata_orderId = Some ''o1''\<rparr>"])
      (simp_all add: webhook_def stub_env_def shop_with_def orderA_def)
  show "handleStripeWebhook stub_env (webhook ''valid'' ''payment_intent.succeeded'') shop =
     (sendSuccess Received ''Webhook processed successfully'' 200, shop)"
    by (rule webhook_succeeded_noop
        [where sig = "''valid''"
           and ev = "\<lparr>event_type = ''payment_intent.succeeded'',
                     metadata_orderId = Some ''o1''\<rparr>"])
      (simp_all add: webhook_def stub_env_def shop_def)
qed

subsection \<open>Requests that fail authentication\<close>

text \<open>
  \<^bold>\<open>C8\<close>. A webhook request without a signature header (or with an empty one), or with
  a signature that \<^verbatim>\<open>constructEvent\<close> rejects under the configured secret: the response
  is an error with status 400, and neither table is written; no mail is attempted and no
  payment intent is requested either.
\<close>

theorem webhook_unauthenticated_rejected:
  assumes "stripe_signature req = None \<or> stripe_signature req = Some [] \<or>
     (\<exists>sig m. stripe_signature req = Some sig \<and> STRIPE_WEBHOOK_SECRET e \<noteq> [] \<and>
        constructEvent e (raw_body req) sig (STRIPE_WEBHOOK_SECRET e) = Inl m)"
  shows "statusCode (fst (handleStripeWebhook e req st)) = 400 \<and>
         \<not> success (fst (handleStripeWebhook e req st)) \<and>
         orders (snd (handleStripeWebhook e req st)) = orders st \<and>
         products (snd (handleStripeWebhook e req st)) = products st \<and>
         mail_attempts (snd (handleStripeWebhook e req st)) = mail_attempts st \<and>
         intent_requests (snd (handleStripeWebhook e req st)) = intent_requests st"
proof -
  consider (absent) "stripe_signature req = None \<or> stripe_signature req = Some []"
    | (rejected) sig m where "stripe_signature req = Some sig" "sig \<noteq> []"
        "STRIPE_WEBHOOK_SECRET e \<noteq> []"
        "constructEvent e (raw_body req) sig (STRIPE_WEBHOOK_SECRET e) = Inl m"
    using assms by blast
  then show ?thesis
  proof cases
    case absent
    then have "handleStripeWebhook e req st =
        (sendError ''Missing stripe-signature header'' 400, st)"
      by (auto simp: handleStripeWebhook_def handleStripeWebhook_try_def)
    then show ?thesis
      by (simp add: sendError_def)
  next
    case rejected
    then have "handleStripeWebhook e req st =
        (sendError (''Webhook Error: '' @ m) 400,
         logger (LogError ''Webhook signature verification failed'') st)"
      by (simp add: handleStripeWebhook_def handleStripeWebhook_try_def)
    then show ?thesis
      by (simp add: sendError_def logger_def)
  qed
qed

theorem webhook_unauthenticated_rejected_witness:
  "statusCode (fst (handleStripeWebhook stub_env (webhook ''forged'' ''payment_intent.succeeded'')
      (shop_with PENDING))) = 400 \<and>
   orders (snd (handleStripeWebhook stub_env (webhook ''forged'' ''payment_intent.succeeded'')
      (shop_with PENDING))) = orders (shop_with PENDING) \<and>
   products (snd (handleStripeWebhook stub_env (webhook ''forged'' ''payment_intent.succeeded'')
      (shop_with PENDING))) = products (shop_with PENDING)"
proof -
  have "\<exists>sig m. stripe_signature (webhook ''forged'' ''payment_intent.succeeded'') = Some sig \<and>
      STRIPE_WEBHOOK_SECRET stub_env \<noteq> [] \<and>
      constructEvent stub_env (raw_body (webhook ''forged'' ''payment_intent.succeeded'')) sig
        (STRIPE_WEBHOOK_SECRET stub_env) = Inl m"
    by (simp add: webhook_def stub_env_def)
  then show ?thesis
    using webhook_unauthenticated_rejected
      [of "webhook ''forged'' ''payment_intent.succeeded''" stub_env "shop_with PENDING"]
    by blast
qed

subsection \<open>Payment failures\<close>

lemma on_payment_failed_eq:
  assumes "metadata_orderId ev = Some oid" "oid \<noteq> []"
  shows "on_payment_failed ev st =
     (case orders st oid of
        None \<Rightarrow> (Throw (PrismaError ''P2025''), st)
      | Some ord \<Rightarrow>
          (Ok (), st\<lparr>orders := (orders st)(oid \<mapsto> ord\<lparr>status := FAILED\<rparr>),
                     log := log st @ [LogWarn (''Order '' @ oid @ '' payment failed'')]\<rparr>))"
  using assms
  by (simp add: on_payment_failed_def order_update_def logger_def split: option.split)

text \<open>
  \<^bold>\<open>C10\<close>. A \<^verbatim>\<open>payment_intent.payment_failed\<close> event that passes signature verification
  and whose \<^verbatim>\<open>metadata.orderId\<close> matches no order: the update of the status throws, the
  handler answers 500 instead of acknowledging, and no order, product or mail changes; the
  failure is logged. When the order exists the handler acknowledges and the order is FAILED:
  the transition is applied only to an order that exists.
\<close>

theorem webhook_payment_failed_unknown_order:
  assumes sig: "stripe_signature req = Some sig" "sig \<noteq> []"
    and secret: "STRIPE_WEBHOOK_SECRET e \<noteq> []"
    and verified: "constructEvent e (raw_body req) sig (STRIPE_WEBHOOK_SECRET e) = Inr ev"
    and kind: "event_type ev = ''payment_intent.payment_failed''"
    and oid: "metadata_orderId ev = Some oid" "oid \<noteq> []"
  shows "(orders st oid = None \<longrightarrow>
            handleStripeWebhook e req st =
              (sendError ''Webhook processing failed'' 500,
               st\<lparr>log := log st @ [LogError ''Error in handleStripeWebhook'']\<rparr>)) \<and>
         (\<forall>ord. orders st oid = Some ord \<longrightarrow>
            handleStripeWebhook e req st =
              (sendSuccess Received ''Webhook processed successfully'' 200,
               st\<lparr>orders := (orders st)(oid \<mapsto> ord\<lparr>status := FAILED\<rparr>),
                  log := log st @ [LogWarn (''Order '' @ oid @ '' payment failed'')]\<rparr>))"
  by (simp add: handleStripeWebhook_verified [OF sig secret verified] kind
      on_payment_failed_eq [OF oid] logger_def)

theorem webhook_payment_failed_unknown_order_witness:
  "handleStripeWebhook stub_env (webhook ''valid'' ''payment_intent.payment_failed'') shop =
     (sendError ''Webhook processing failed'' 500,
      shop\<lparr>log := [LogError ''Error in handleStripeWebhook'']\<rparr>) \<and>
   statusCode (sendError ''Webhook processing failed'' 500) = 500"
  using webhook_payment_failed_unknown_order
    [where req = "webhook ''valid'' ''payment_intent.payment_failed''" and sig = "''valid''"
       and e = stub_env and st = shop and oid = "''o1''"
       and ev = "\<lparr>event_type = ''payment_intent.payment_failed'',
                 metadata_orderId = Some ''o1''\<rparr>"]
  by (simp add: webhook_def stub_env_def shop_def sendError_def)

text \<open>
  \<^bold>\<open>C3\<close>. The specification has webhook processing never move an order out of PAID,
  FAILED or CANCELLED. The arm for \<^verbatim>\<open>payment_intent.succeeded\<close> tests for PENDING first; the arm
  for \<^verbatim>\<open>payment_intent.payment_failed\<close> has no such test. Here the order \<open>o1\<close> is PAID,
  a verified \<^verbatim>\<open>payment_intent.payment_failed\<close> event names it, and the handler
  acknowledges and leaves the order FAILED.
\<close>

theorem webhook_payment_failed_overwrites_paid:
  "map_option status (orders (shop_with PAID) ''o1'') = Some PAID \<and>
   fst (handleStripeWebhook stub_env (webhook ''valid'' ''payment_intent.payment_failed'')
          (shop_with PAID)) =
     sendSuccess Received ''Webhook processed successfully'' 200 \<and>
   map_option status
     (orders (snd (handleStripeWebhook stub_env
                     (webhook ''valid'' ''payment_intent.payment_failed'') (shop_with PAID)))
        ''o1'') = Some FAILED"
  by (simp add: handleStripeWebhook_def handleStripeWebhook_try_def on_payment_failed_def
      order_update_def logger_def webhook_def stub_env_def shop_with_def shop_def orderA_def)

subsection \<open>The batch lookup of order creation\<close>

lemma find_map_filter_lookup:
  "find (\<lambda>q. fst q = i) (List.map_filter (\<lambda>j. map_option (Pair j) (tbl j)) xs) =
     (if i \<in> set xs then map_option (Pair i) (tbl i) else None)"
proof (induction xs)
  case Nil
  show ?case by (simp add: List.map_filter_simps)
next
  case (Cons x xs)
  show ?case
  proof (cases "tbl x")
    case None
    with Cons.IH show ?thesis
      by (auto simp: List.map_filter_simps)
  next
    case (Some p)
    with Cons.IH show ?thesis
      by (auto simp: List.map_filter_simps)
  qed
qed

lemma find_product_findMany:
  "find (\<lambda>q. fst q = i) (product_findMany ids st) =
     (if i \<in> set ids then map_option (Pair i) (products st i) else None)"
  by (simp add: product_findMany_def find_map_filter_lookup)

lemma length_product_findMany:
  "length (product_findMany ids st) = length (filter (\<lambda>i. products st i \<noteq> None) (remdups ids))"
proof -
  have "\<And>xs. length (List.map_filter (\<lambda>i. map_option (Pair i) (products st i)) xs) =
      length (filter (\<lambda>i. products st i \<noteq> None) xs)"
    by (simp add: List.map_filter_def)
  then show ?thesis
    by (simp add: product_findMany_def)
qed

lemma all_found_iff:
  "length (product_findMany ids st) = length ids \<longleftrightarrow>
     distinct ids \<and> (\<forall>i \<in> set ids. products st i \<noteq> None)"
proof
  assume eq: "length (product_findMany ids st) = length ids"
  have le1: "length (filter (\<lambda>i. products st i \<noteq> None) (remdups ids)) \<le> length (remdups ids)"
    by (rule length_filter_le)
  have le2: "length (remdups ids) \<le> length ids"
    by (rule length_remdups_leq)
  from eq le1 le2 have a: "length (remdups ids) = length ids"
    and b: "length (filter (\<lambda>i. products st i \<noteq> None) (remdups ids)) = length (remdups ids)"
    by (simp_all add: length_product_findMany)
  from a have d: "distinct ids"
    by simp
  have "\<forall>i \<in> set (remdups ids). products st i \<noteq> None"
  proof (rule ccontr)
    assume "\<not> (\<forall>i \<in> set (remdups ids). products st i \<noteq> None)"
    then obtain i where "i \<in> set (remdups ids)" "\<not> products st i \<noteq> None"
      by blast
    then have "length (filter (\<lambda>i. products st i \<noteq> None) (remdups ids)) < length (remdups ids)"
      by (rule length_filter_less)
    with b show False by simp
  qed
  with d show "distinct ids \<and> (\<forall>i \<in> set ids. products st i \<noteq> None)"
    by simp
next
  assume "distinct ids \<and> (\<forall>i \<in> set ids. products st i \<noteq> None)"
  then show "length (product_findMany ids st) = length ids"
    by (simp add: length_product_findMany distinct_remdups_id)
qed

subsection \<open>The item loop of order creation\<close>



lemma orderItemsData_Ok:
  assumes "orderItemsData found xs acc = Ok (its, t)"
  shows "t = foldl (\<lambda>a it. js_add a (js_mul (price it) (Finite (of_int (quantity it)))))
               acc its \<and>
         list_all2 (\<lambda>item it. productId it = in_productId item \<and>
                      quantity it = in_quantity item \<and>
                      (\<exists>p. find (\<lambda>q. fst q = in_productId item) found =
                             Some (in_productId item, p) \<and>
                           price it = unit_price p \<and> in_quantity item \<le> stock p))
           xs its"
  using assms
proof (induction xs arbitrary: acc its t)
  case Nil
  then show ?case by simp
next
  case (Cons item rest)
  from Cons.prems obtain k p where f: "find (\<lambda>q. fst q = in_productId item) found = Some (k, p)"
    by (auto split: option.splits)
  then have k: "k = in_productId item"
    by (induction found) (auto split: if_splits)
  from Cons.prems f have enough: "\<not> stock p < in_quantity item"
    by (auto split: if_splits)
  from Cons.prems f enough obtain its' where
    rec: "orderItemsData found rest
            (js_add acc (js_mul (unit_price p) (Finite (of_int (in_quantity item))))) =
          Ok (its', t)"
    and its: "its = \<lparr>productId = in_productId item, price = unit_price p,
                     quantity = in_quantity item\<rparr> # its'"
    by (auto split: result.splits)
  from Cons.IH [OF rec] show ?case
    using f k enough by (simp add: its)
qed

lemma orderItemsData_insufficient:
  assumes "\<forall>x \<in> set pre. \<exists>p. find (\<lambda>q. fst q = in_productId x) found = Some (in_productId x, p) \<and>
              \<not> stock p < in_quantity x"
    and "find (\<lambda>q. fst q = in_productId item) found = Some (in_productId item, p)"
    and "stock p < in_quantity item"
  shows "orderItemsData found (pre @ item # post) acc =
     Throw (AppError (''Insufficient stock for '' @ name p @ ''. Available: '' @
                      show_int (stock p) @ '', Requested: '' @ show_int (in_quantity item)) 400)"
  using assms
proof (induction pre arbitrary: acc)
  case Nil
  then show ?case by simp
next
  case (Cons x pre)
  from Cons.prems(1) obtain px where
    px: "find (\<lambda>q. fst q = in_productId x) found = Some (in_productId x, px)"
      "\<not> stock px < in_quantity x"
    by auto
  have "orderItemsData found (pre @ item # post)
          (js_add acc (js_mul (unit_price px) (Finite (of_int (in_quantity x))))) =
     Throw (AppError (''Insufficient stock for '' @ name p @ ''. Available: '' @
                      show_int (stock p) @ '', Requested: '' @ show_int (in_quantity item)) 400)"
    using Cons.prems by (intro Cons.IH) simp_all
  then show ?case
    using px by simp
qed

subsection \<open>Order creation\<close>

lemma createOrder_success:
  assumes run: "createOrder e body st = (resp, st')" and ok: "success resp"
  obtains its t where
    "length (product_findMany (map in_productId (body_items body)) st) =
       length (body_items body)"
    "orderItemsData (product_findMany (map in_productId (body_items body)) st)
       (body_items body) (Finite 0) = Ok (its, t)"
    "orders st (uuid e) = None"
    "st' = st\<lparr>orders := (orders st)(uuid e \<mapsto>
        \<lparr>customerEmail = body_customerEmail body, totalAmount = t, status = PENDING,
         stripePaymentIntentId = None, items = its\<rparr>)\<rparr>"
    "resp = sendSuccess (OrderData (uuid e)
        \<lparr>customerEmail = body_customerEmail body, totalAmount = t, status = PENDING,
         stripePaymentIntentId = None, items = its\<rparr>) ''Order created successfully'' 201"
proof -
  have err: "\<not> success (case ex of AppError m c \<Rightarrow> sendError m c
                          | _ \<Rightarrow> sendError ''Failed to create order'' 500)" for ex
    by (cases ex) (simp_all add: sendError_def)
  from run ok obtain r where tr: "createOrder_try e body st = (Ok r, st')" and r: "resp = r"
    by (auto simp: createOrder_def err split: prod.splits result.splits)
  from tr r that show thesis
    by (auto simp: createOrder_try_def order_create_def Let_def
        split: if_splits result.splits prod.splits option.splits)
qed

lemma three_stickers:
  "js_add (Finite 0) (js_mul (Finite (3602879701896397 / 36028797018963968)) (Finite 3)) =
     Finite (1351079888211149 / 4503599627370496)"
  by code_simp

lemma two_widgets: "js_add (Finite 0) (js_mul (Finite 10) (Finite 2)) = Finite 20"
  by code_simp

text \<open>
  \<^bold>\<open>C5\<close>, as stated, fails on the rounding of doubles. Three stickers at 0.1 (the double
  \<open>3602879701896397 / 2\<^sup>5\<^sup>5\<close>) are stored with the total 0.30000000000000004 (the double
  \<open>1351079888211149 / 2\<^sup>5\<^sup>2\<close>), which is not the price times three.
\<close>

theorem createOrder_total_and_price_snapshot_counterexample:
  "map_option unit_price (products kiosk ''pS'') =
     Some (Finite (3602879701896397 / 36028797018963968)) \<and>
   success (fst (createOrder stub_env (order_body [(''pS'', 3)]) kiosk)) \<and>
   map_option items (orders (snd (createOrder stub_env (order_body [(''pS'', 3)]) kiosk)) ''o1'') =
     Some [\<lparr>productId = ''pS'', price = Finite (3602879701896397 / 36028797018963968),
            quantity = 3\<rparr>] \<and>
   map_option totalAmount
     (orders (snd (createOrder stub_env (order_body [(''pS'', 3)]) kiosk)) ''o1'') =
     Some (Finite (1351079888211149 / 4503599627370496)) \<and>
   (1351079888211149 / 4503599627370496 :: rat) \<noteq> 3602879701896397 / 36028797018963968 * 3"
  by (simp add: createOrder_def createOrder_try_def product_findMany_def List.map_filter_def
      order_create_def order_body_def stub_env_def kiosk_def sticker_def sendSuccess_def
      three_stickers del: js_add.simps js_mul.simps)

text \<open>
  \<^bold>\<open>C5\<close>, amended. When \<^verbatim>\<open>createOrder\<close> answers with success, exactly one order is
  added, under the generated identifier and in status PENDING. Its items are the requested
  ones in the requested order, each with the price its product has in the store at that
  moment, and its total is the sum over its items of price times quantity as double
  arithmetic computes it: starting from 0 and going through the items in order, each
  product is rounded to the nearest double and added to the running total, which is rounded
  again. The product table is not written. The prices are copies: an update of any product
  row afterwards (\<^verbatim>\<open>prisma.product.update\<close> with any change, a new price included) leaves
  the order, its items' prices and its total as they were.
\<close>

theorem createOrder_total_and_price_snapshot:
  assumes run: "createOrder e body st = (resp, st')" and ok: "success resp"
  shows "\<exists>ord. resp = \<lparr>statusCode = 201, success = True,
                       message = ''Order created successfully'',
                       data = OrderData (uuid e) ord\<rparr> \<and>
           orders st (uuid e) = None \<and>
           orders st' = (orders st)(uuid e \<mapsto> ord) \<and>
           products st' = products st \<and>
           status ord = PENDING \<and>
           totalAmount ord =
             foldl (\<lambda>total it. js_add total (js_mul (price it) (Finite (of_int (quantity it)))))
               (Finite 0) (items ord) \<and>
           list_all2 (\<lambda>item it. productId it = in_productId item \<and>
                        quantity it = in_quantity item \<and>
                        (\<exists>p. products st (in_productId item) = Some p \<and>
                             price it = unit_price p))
             (body_items body) (items ord) \<and>
           (\<forall>pid f. orders (snd (product_update pid f st')) (uuid e) = Some ord)"
proof -
  from run ok obtain its t where
    data: "orderItemsData (product_findMany (map in_productId (body_items body)) st)
       (body_items body) (Finite 0) = Ok (its, t)"
    and fresh: "orders st (uuid e) = None"
    and st': "st' = st\<lparr>orders := (orders st)(uuid e \<mapsto>
        \<lparr>customerEmail = body_customerEmail body, totalAmount = t, status = PENDING,
         stripePaymentIntentId = None, items = its\<rparr>)\<rparr>"
    and resp: "resp = sendSuccess (OrderData (uuid e)
        \<lparr>customerEmail = body_customerEmail body, totalAmount = t, status = PENDING,
         stripePaymentIntentId = None, items = its\<rparr>) ''Order created successfully'' 201"
    by (rule createOrder_success)
  define ord where "ord = \<lparr>customerEmail = body_customerEmail body, totalAmount = t,
    status = PENDING, stripePaymentIntentId = None, items = its\<rparr>"
  from orderItemsData_Ok [OF data]
  have total: "t = foldl (\<lambda>total it. js_add total (js_mul (price it) (Finite (of_int (quantity it)))))
               (Finite 0) its"
    and each: "list_all2 (\<lambda>item it. productId it = in_productId item \<and>
                      quantity it = in_quantity item \<and>
                      (\<exists>p. find (\<lambda>q. fst q = in_productId item)
                              (product_findMany (map in_productId (body_items body)) st) =
                             Some (in_productId item, p) \<and>
                           price it = unit_price p \<and> in_quantity item \<le> stock p))
           (body_items body) its"
    by simp_all
  have snap: "list_all2 (\<lambda>item it. productId it = in_productId item \<and>
                        quantity it = in_quantity item \<and>
                        (\<exists>p. products st (in_productId item) = Some p \<and>
                             price it = unit_price p))
             (body_items body) its"
    using each
    by (rule list_all2_mono) (auto simp: find_product_findMany split: if_splits)
  have frame: "orders (snd (product_update pid f st')) (uuid e) = Some ord" for pid f
    by (simp add: product_update_def st' ord_def split: option.split)
  have "resp = \<lparr>statusCode = 201, success = True, message = ''Order created successfully'',
                 data = OrderData (uuid e) ord\<rparr>"
    by (simp add: resp sendSuccess_def ord_def)
  moreover have "totalAmount ord =
      foldl (\<lambda>total it. js_add total (js_mul (price it) (Finite (of_int (quantity it)))))
        (Finite 0) (items ord)"
    using total by (simp add: ord_def)
  moreover have "list_all2 (\<lambda>item it. productId it = in_productId item \<and>
                        quantity it = in_quantity item \<and>
                        (\<exists>p. products st (in_productId item) = Some p \<and>
                             price it = unit_price p))
             (body_items body) (items ord)"
    using snap by (simp add: ord_def)
  moreover have "orders st' = (orders st)(uuid e \<mapsto> ord)" "products st' = products st"
    "status ord = PENDING"
    by (simp_all add: st' ord_def)
  ultimately show ?thesis
    using fresh frame by (intro exI [of _ ord]) simp
qed

theorem createOrder_total_and_price_snapshot_witness:
  "success (fst (createOrder stub_env (order_body [(''pA'', 2)]) shop)) \<and>
   (\<exists>ord. orders (snd (createOrder stub_env (order_body [(''pA'', 2)]) shop)) =
            (orders shop)(''o1'' \<mapsto> ord) \<and>
          totalAmount ord =
            foldl (\<lambda>total it. js_add total (js_mul (price it) (Finite (of_int (quantity it)))))
              (Finite 0) (items ord) \<and>
          list_all2 (\<lambda>item it. productId it = in_productId item \<and>
                        quantity it = in_quantity item \<and>
                        (\<exists>p. products shop (in_productId item) = Some p \<and>
                             price it = unit_price p))
             (body_items (order_body [(''pA'', 2)])) (items ord)) \<and>
   map_option totalAmount
     (orders (snd (createOrder stub_env (order_body [(''pA'', 2)]) shop)) ''o1'') =
     Some (Finite 20)"
proof -
  have ok: "success (fst (createOrder stub_env (order_body [(''pA'', 2)]) shop))"
    by (simp add: createOrder_def createOrder_try_def product_findMany_def
        List.map_filter_def order_create_def order_body_def stub_env_def shop_def
        productA_def sendSuccess_def)
  have u: "uuid stub_env = ''o1''"
    by (simp add: stub_env_def)
  have total: "map_option totalAmount
     (orders (snd (createOrder stub_env (order_body [(''pA'', 2)]) shop)) ''o1'') =
     Some (Finite 20)"
    by (simp add: createOrder_def createOrder_try_def product_findMany_def
        List.map_filter_def order_create_def order_body_def stub_env_def shop_def
        productA_def two_widgets del: js_add.simps js_mul.simps)
  show ?thesis
    using createOrder_total_and_price_snapshot
      [of stub_env "order_body [(''pA'', 2)]" shop
          "fst (createOrder stub_env (order_body [(''pA'', 2)]) shop)"
          "snd (createOrder stub_env (order_body [(''pA'', 2)]) shop)", OF _ ok]
    unfolding u by (intro conjI ok total) auto
qed

text \<open>
  \<^bold>\<open>C4\<close>. The specification has order creation fail with not-found exactly when some
  referenced product does not exist. The handler compares the number of rows found with the number of
  items, so a request that names an existing product in two items fails the comparison:
  here both items reference \<open>pA\<close>, which exists, and the response is 404 with the message
  that one or more products were not found.
\<close>

theorem createOrder_repeated_product_not_found:
  "products shop ''pA'' = Some productA \<and>
   map in_productId (body_items (order_body [(''pA'', 1), (''pA'', 1)])) = [''pA'', ''pA''] \<and>
   createOrder stub_env (order_body [(''pA'', 1), (''pA'', 1)]) shop =
     (sendError ''One or more products not found'' 404,
      shop\<lparr>log := [LogError ''Error in createOrder'']\<rparr>)"
  by (simp add: createOrder_def createOrder_try_def product_findMany_def List.map_filter_def
      order_body_def shop_def logger_def)

text \<open>
  On requests whose items name pairwise different products the comparison is exact: the
  response is the 404 of the comparison precisely when some product does not exist.
\<close>

lemma createOrder_not_found_iff:
  assumes "distinct (map in_productId (body_items body))"
  shows "createOrder e body st =
           (sendError ''One or more products not found'' 404,
            logger (LogError ''Error in createOrder'') st) \<longleftrightarrow>
         (\<exists>item \<in> set (body_items body). products st (in_productId item) = None)"
proof
  assume "\<exists>item \<in> set (body_items body). products st (in_productId item) = None"
  then have "length (product_findMany (map in_productId (body_items body)) st) \<noteq>
      length (map in_productId (body_items body))"
    unfolding all_found_iff by auto
  then show "createOrder e body st =
           (sendError ''One or more products not found'' 404,
            logger (LogError ''Error in createOrder'') st)"
    by (simp add: createOrder_def createOrder_try_def)
next
  assume run: "createOrder e body st =
           (sendError ''One or more products not found'' 404,
            logger (LogError ''Error in createOrder'') st)"
  show "\<exists>item \<in> set (body_items body). products st (in_productId item) = None"
  proof (rule ccontr)
    assume "\<not> (\<exists>item \<in> set (body_items body). products st (in_productId item) = None)"
    then have all: "\<forall>item \<in> set (body_items body). products st (in_productId item) \<noteq> None"
      by simp
    with assms have len: "length (product_findMany (map in_productId (body_items body)) st) =
      length (map in_productId (body_items body))"
      unfolding all_found_iff by simp
    have found: "find (\<lambda>q. fst q = in_productId item)
          (product_findMany (map in_productId (body_items body)) st) \<noteq> None"
      if "item \<in> set (body_items body)" for item
      using that all by (auto simp: find_product_findMany)
    have no404: "orderItemsData found xs acc \<noteq> Throw (AppError m 404)"
      if "\<forall>item \<in> set xs. find (\<lambda>q. fst q = in_productId item) found \<noteq> None"
      for found xs acc m
      using that
      by (induction xs arbitrary: acc) (auto split: option.splits result.splits)
    from run len no404 [OF ballI [OF found]] show False
      by (auto simp: createOrder_def createOrder_try_def order_create_def sendError_def
          sendSuccess_def split: result.splits option.splits exn.splits prod.splits)
  qed
qed

text \<open>
  \<^bold>\<open>C7\<close>, as stated, fails when another item of the request references a product that
  does not exist: the lookup of the products comes first. Here the first item asks for 6 of
  a product with stock 5 and the second references \<open>pC\<close>, which has no row; the response
  is 404, not 400.
\<close>

theorem createOrder_insufficient_stock_counterexample:
  "products shop ''pA'' = Some productA \<and> stock productA < 6 \<and>
   products shop ''pC'' = None \<and>
   statusCode (fst (createOrder stub_env (order_body [(''pA'', 6), (''pC'', 1)]) shop)) = 404"
  by (simp add: createOrder_def createOrder_try_def product_findMany_def List.map_filter_def
      order_body_def shop_def productA_def sendError_def)

text \<open>
  \<^bold>\<open>C7\<close>, amended. When the items of the request name pairwise different products that
  all exist, and some item asks for more than the stock recorded for its product, the
  response is an error with status 400 whose message names such a product, its stock and
  the quantity requested of it; no order is written (the store changes in its log only).
\<close>

theorem createOrder_insufficient_stock:
  assumes d: "distinct (map in_productId (body_items body))"
    and all: "\<forall>item \<in> set (body_items body). products st (in_productId item) \<noteq> None"
    and short: "\<exists>item \<in> set (body_items body). \<exists>p.
        products st (in_productId item) = Some p \<and> stock p < in_quantity item"
  shows "\<exists>item \<in> set (body_items body). \<exists>p.
           products st (in_productId item) = Some p \<and> stock p < in_quantity item \<and>
           createOrder e body st =
             (sendError (''Insufficient stock for '' @ name p @ ''. Available: '' @
                         show_int (stock p) @ '', Requested: '' @
                         show_int (in_quantity item)) 400,
              logger (LogError ''Error in createOrder'') st) \<and>
           orders (snd (createOrder e body st)) = orders st"
proof -
  let ?found = "product_findMany (map in_productId (body_items body)) st"
  let ?short = "\<lambda>item. \<exists>p. products st (in_productId item) = Some p \<and> stock p < in_quantity item"
  from short obtain pre item post where
    split: "body_items body = pre @ item # post" and item: "?short item"
    and pre: "\<forall>x \<in> set pre. \<not> ?short x"
    using split_list_first_prop [of "body_items body" ?short] by blast
  from item obtain p where p: "products st (in_productId item) = Some p"
    "stock p < in_quantity item"
    by blast
  have mem: "item \<in> set (body_items body)"
    by (simp add: split)
  have lookup: "find (\<lambda>q. fst q = in_productId x) ?found =
      map_option (Pair (in_productId x)) (products st (in_productId x))"
    if "x \<in> set (body_items body)" for x
    using that by (simp add: find_product_findMany)
  have "\<forall>x \<in> set pre. \<exists>px. find (\<lambda>q. fst q = in_productId x) ?found =
      Some (in_productId x, px) \<and> \<not> stock px < in_quantity x"
  proof
    fix x assume x: "x \<in> set pre"
    then have "x \<in> set (body_items body)"
      by (simp add: split)
    with all lookup obtain px where px: "products st (in_productId x) = Some px"
      "find (\<lambda>q. fst q = in_productId x) ?found = Some (in_productId x, px)"
      by fastforce
    with pre x show "\<exists>px. find (\<lambda>q. fst q = in_productId x) ?found =
      Some (in_productId x, px) \<and> \<not> stock px < in_quantity x"
      by auto
  qed
  moreover have "find (\<lambda>q. fst q = in_productId item) ?found = Some (in_productId item, p)"
    using lookup [OF mem] p by simp
  ultimately have "orderItemsData ?found (pre @ item # post) (Finite 0) =
     Throw (AppError (''Insufficient stock for '' @ name p @ ''. Available: '' @
                      show_int (stock p) @ '', Requested: '' @ show_int (in_quantity item)) 400)"
    using p(2) by (rule orderItemsData_insufficient)
  moreover have "length ?found = length (map in_productId (body_items body))"
    unfolding all_found_iff using d all by simp
  ultimately have "createOrder e body st =
             (sendError (''Insufficient stock for '' @ name p @ ''. Available: '' @
                         show_int (stock p) @ '', Requested: '' @
                         show_int (in_quantity item)) 400,
              logger (LogError ''Error in createOrder'') st)"
    by (simp add: createOrder_def createOrder_try_def split [symmetric])
  with mem p show ?thesis
    by (auto simp: logger_def)
qed

theorem createOrder_insufficient_stock_witness:
  "createOrder stub_env (order_body [(''pA'', 6), (''pB'', 1)]) shop =
     (sendError ''Insufficient stock for Widget. Available: 5, Requested: 6'' 400,
      shop\<lparr>log := [LogError ''Error in createOrder'']\<rparr>)"
  using createOrder_insufficient_stock
    [of "order_body [(''pA'', 6), (''pB'', 1)]" shop stub_env]
  by (simp add: order_body_def shop_def productA_def productB_def show_int_def digit_char_def
      logger_def)

subsection \<open>Payment-intent issuance\<close>

lemma cents_of_bead:
  "Math_round (js_mul (Finite (1080863910568919 / 72057594037927936)) (Finite 100)) = Finite 2"
  by code_simp

lemma cents_of_two_widgets: "Math_round (js_mul (Finite 20) (Finite 100)) = Finite 2000"
  by code_simp

text \<open>
  \<^bold>\<open>C6\<close>, as stated, fails on the rounding of doubles. The order \<open>o2\<close> of the kiosk is
  PENDING with the total 0.015, the double \<open>1080863910568919 / 2\<^sup>5\<^sup>6\<close>, which lies below
  0.015. That total times 100 lies below 1.5 and its nearest integer is 1, but the double
  product is 1.5 and \<^verbatim>\<open>Math.round\<close> makes it 2: the intent is requested for 2 cents.
\<close>

theorem createPaymentIntent_contract_counterexample:
  "map_option status (orders kiosk_open ''o2'') = Some PENDING \<and>
   map_option totalAmount (orders kiosk_open ''o2'') =
     Some (Finite (1080863910568919 / 72057594037927936)) \<and>
   round (1080863910568919 / 72057594037927936 * 100 :: rat) = 1 \<and>
   map amount (intent_requests (snd (createPaymentIntent stub_env ''o2'' kiosk_open))) =
     [Finite 2]"
proof -
  have "\<lfloor>1080863910568919 / 72057594037927936 * 100 + 1 / 2 :: rat\<rfloor> = 1"
    by (rule floor_unique) simp_all
  then have "round (1080863910568919 / 72057594037927936 * 100 :: rat) = 1"
    by (simp only: round_def)
  moreover have "map amount
      (intent_requests (snd (createPaymentIntent stub_env ''o2'' kiosk_open))) = [Finite 2]"
    by (simp add: createPaymentIntent_def createPaymentIntent_try_def order_update_def
        kiosk_open_def kiosk_def orderT_def stub_env_def cents_of_bead
        del: js_mul.simps Math_round.simps)
  moreover have "map_option status (orders kiosk_open ''o2'') = Some PENDING"
    "map_option totalAmount (orders kiosk_open ''o2'') =
       Some (Finite (1080863910568919 / 72057594037927936))"
    by (simp_all add: kiosk_open_def orderT_def)
  ultimately show ?thesis
    by (intro conjI)
qed

text \<open>
  \<^bold>\<open>C6\<close>, amended. \<^verbatim>\<open>createPaymentIntent\<close> on an identifier that matches no order
  answers 404; on an order that is not PENDING it answers 400; in both cases the store
  changes in its log only. On a PENDING order it asks the processor for an intent whose
  amount is \<^verbatim>\<open>Math.round\<close> of the double product of the total and 100 (the product is
  rounded to the nearest double first, then to the nearest integer, halves going up), in
  \<^verbatim>\<open>usd\<close>, with the order identifier and the customer's mail address as metadata; when
  the processor returns an intent, its identifier is stored on the order and the response
  is a success that carries the updated order and the client secret.
\<close>

theorem createPaymentIntent_contract:
  "(orders st oid = None \<longrightarrow>
      createPaymentIntent e oid st =
        (\<lparr>statusCode = 404, success = False, message = ''Order not found'', data = NoData\<rparr>,
         st\<lparr>log := log st @ [LogError ''Error in createPaymentIntent'']\<rparr>)) \<and>
   (\<forall>ord. orders st oid = Some ord \<and> status ord \<noteq> PENDING \<longrightarrow>
      createPaymentIntent e oid st =
        (\<lparr>statusCode = 400, success = False, message = ''Order is not in pending status'',
          data = NoData\<rparr>,
         st\<lparr>log := log st @ [LogError ''Error in createPaymentIntent'']\<rparr>)) \<and>
   (\<forall>ord. orders st oid = Some ord \<and> status ord = PENDING \<longrightarrow>
      (\<exists>request.
         intent_requests (snd (createPaymentIntent e oid st)) = intent_requests st @ [request] \<and>
         amount request = Math_round (js_mul (totalAmount ord) (Finite 100)) \<and>
         currency request = ''usd'' \<and>
         meta_orderId request = oid \<and>
         meta_customerEmail request = customerEmail ord \<and>
         (\<forall>intent_id client_secret.
            paymentIntents_create e request = Inr (intent_id, client_secret) \<longrightarrow>
            createPaymentIntent e oid st =
              (\<lparr>statusCode = 200, success = True,
                message = ''Payment intent created successfully'',
                data = IntentData oid (ord\<lparr>stripePaymentIntentId := Some intent_id\<rparr>)
                         client_secret\<rparr>,
               st\<lparr>intent_requests := intent_requests st @ [request],
                  orders := (orders st)(oid \<mapsto> ord\<lparr>stripePaymentIntentId := Some intent_id\<rparr>)\<rparr>))))"
proof (intro conjI allI impI)
  assume "orders st oid = None"
  then show "createPaymentIntent e oid st =
        (\<lparr>statusCode = 404, success = False, message = ''Order not found'', data = NoData\<rparr>,
         st\<lparr>log := log st @ [LogError ''Error in createPaymentIntent'']\<rparr>)"
    by (simp add: createPaymentIntent_def createPaymentIntent_try_def sendError_def logger_def)
next
  fix ord assume "orders st oid = Some ord \<and> status ord \<noteq> PENDING"
  then show "createPaymentIntent e oid st =
        (\<lparr>statusCode = 400, success = False, message = ''Order is not in pending status'',
          data = NoData\<rparr>,
         st\<lparr>log := log st @ [LogError ''Error in createPaymentIntent'']\<rparr>)"
    by (simp add: createPaymentIntent_def createPaymentIntent_try_def sendError_def logger_def)
next
  fix ord assume pending: "orders st oid = Some ord \<and> status ord = PENDING"
  define request where "request =
    \<lparr>amount = Math_round (js_mul (totalAmount ord) (Finite 100)), currency = ''usd'',
     meta_orderId = oid, meta_customerEmail = customerEmail ord\<rparr>"
  define st1 where "st1 = st\<lparr>intent_requests := intent_requests st @ [request]\<rparr>"
  have run: "createPaymentIntent_try e oid st =
      (case paymentIntents_create e request of
         Inl m \<Rightarrow> (Throw (StripeError m), st1)
       | Inr (intent_id, client_secret) \<Rightarrow>
           (Ok (sendSuccess
                  (IntentData oid (ord\<lparr>stripePaymentIntentId := Some intent_id\<rparr>) client_secret)
                  ''Payment intent created successfully'' 200),
            st1\<lparr>orders := (orders st)(oid \<mapsto> ord\<lparr>stripePaymentIntentId := Some intent_id\<rparr>)\<rparr>))"
    using pending
    by (simp add: createPaymentIntent_try_def Let_def order_update_def request_def st1_def
        split: sum.split prod.split)
  have reqs: "intent_requests (snd (createPaymentIntent e oid st)) = intent_requests st @ [request]"
    by (simp add: createPaymentIntent_def run st1_def logger_def
        split: sum.split prod.split exn.split)
  have stored: "createPaymentIntent e oid st =
      (\<lparr>statusCode = 200, success = True,
        message = ''Payment intent created successfully'',
        data = IntentData oid (ord\<lparr>stripePaymentIntentId := Some intent_id\<rparr>)
                 client_secret\<rparr>,
       st\<lparr>intent_requests := intent_requests st @ [request],
          orders := (orders st)(oid \<mapsto> ord\<lparr>stripePaymentIntentId := Some intent_id\<rparr>)\<rparr>)"
    if "paymentIntents_create e request = Inr (intent_id, client_secret)"
    for intent_id client_secret
    using that by (simp add: createPaymentIntent_def run st1_def sendSuccess_def)
  show "\<exists>request.
         intent_requests (snd (createPaymentIntent e oid st)) = intent_requests st @ [request] \<and>
         amount request = Math_round (js_mul (totalAmount ord) (Finite 100)) \<and>
         currency request = ''usd'' \<and>
         meta_orderId request = oid \<and>
         meta_customerEmail request = customerEmail ord \<and>
         (\<forall>intent_id client_secret.
            paymentIntents_create e request = Inr (intent_id, client_secret) \<longrightarrow>
            createPaymentIntent e oid st =
              (\<lparr>statusCode = 200, success = True,
                message = ''Payment intent created successfully'',
                data = IntentData oid (ord\<lparr>stripePaymentIntentId := Some intent_id\<rparr>)
                         client_secret\<rparr>,
               st\<lparr>intent_requests := intent_requests st @ [request],
                  orders := (orders st)(oid \<mapsto> ord\<lparr>stripePaymentIntentId := Some intent_id\<rparr>)\<rparr>))"
    using reqs stored
    by (intro exI [of _ request]) (simp add: request_def)
qed

theorem createPaymentIntent_contract_witness:
  "fst (createPaymentIntent stub_env ''o2'' (shop_with PENDING)) =
     \<lparr>statusCode = 404, success = False, message = ''Order not found'', data = NoData\<rparr> \<and>
   fst (createPaymentIntent stub_env ''o1'' (shop_with PAID)) =
     \<lparr>statusCode = 400, success = False, message = ''Order is not in pending status'',
      data = NoData\<rparr> \<and>
   map amount (intent_requests (snd (createPaymentIntent stub_env ''o1'' (shop_with PENDING)))) =
     [Finite 2000] \<and>
   fst (createPaymentIntent stub_env ''o1'' (shop_with PENDING)) =
     \<lparr>statusCode = 200, success = True, message = ''Payment intent created successfully'',
      data = IntentData ''o1'' ((orderA PENDING)\<lparr>stripePaymentIntentId := Some ''pi_1''\<rparr>)
               ''pi_1_secret''\<rparr> \<and>
   map_option stripePaymentIntentId
     (orders (snd (createPaymentIntent stub_env ''o1'' (shop_with PENDING))) ''o1'') =
     Some (Some ''pi_1'')"
proof -
  have missing: "orders (shop_with PENDING) ''o2'' = None"
    by (simp add: shop_with_def shop_def)
  have paid: "orders (shop_with PAID) ''o1'' = Some (orderA PAID) \<and> status (orderA PAID) \<noteq> PENDING"
    by (simp add: shop_with_def shop_def orderA_def)
  have pending: "orders (shop_with PENDING) ''o1'' = Some (orderA PENDING) \<and>
      status (orderA PENDING) = PENDING"
    by (simp add: shop_with_def shop_def orderA_def)
  from createPaymentIntent_contract [of "shop_with PENDING" "''o2''" stub_env] missing
  have a: "fst (createPaymentIntent stub_env ''o2'' (shop_with PENDING)) =
     \<lparr>statusCode = 404, success = False, message = ''Order not found'', data = NoData\<rparr>"
    by simp
  from createPaymentIntent_contract [of "shop_with PAID" "''o1''" stub_env] paid
  have b: "fst (createPaymentIntent stub_env ''o1'' (shop_with PAID)) =
     \<lparr>statusCode = 400, success = False, message = ''Order is not in pending status'',
      data = NoData\<rparr>"
    by simp
  from createPaymentIntent_contract [of "shop_with PENDING" "''o1''" stub_env] pending
  obtain request where
    reqs: "intent_requests (snd (createPaymentIntent stub_env ''o1'' (shop_with PENDING))) =
        intent_requests (shop_with PENDING) @ [request]"
    and amt: "amount request = Math_round (js_mul (totalAmount (orderA PENDING)) (Finite 100))"
    and stored: "\<forall>intent_id client_secret.
        paymentIntents_create stub_env request = Inr (intent_id, client_secret) \<longrightarrow>
        createPaymentIntent stub_env ''o1'' (shop_with PENDING) =
          (\<lparr>statusCode = 200, success = True,
            message = ''Payment intent created successfully'',
            data = IntentData ''o1'' ((orderA PENDING)\<lparr>stripePaymentIntentId := Some intent_id\<rparr>)
                     client_secret\<rparr>,
           (shop_with PENDING)\<lparr>intent_requests := intent_requests (shop_with PENDING) @ [request],
              orders := (orders (shop_with PENDING))
                (''o1'' \<mapsto> (orderA PENDING)\<lparr>stripePaymentIntentId := Some intent_id\<rparr>)\<rparr>)"
    by blast
  have "paymentIntents_create stub_env request = Inr (''pi_1'', ''pi_1_secret'')"
    by (simp add: stub_env_def)
  with stored have run: "createPaymentIntent stub_env ''o1'' (shop_with PENDING) =
          (\<lparr>statusCode = 200, success = True,
            message = ''Payment intent created successfully'',
            data = IntentData ''o1'' ((orderA PENDING)\<lparr>stripePaymentIntentId := Some ''pi_1''\<rparr>)
                     ''pi_1_secret''\<rparr>,
           (shop_with PENDING)\<lparr>intent_requests := intent_requests (shop_with PENDING) @ [request],
              orders := (orders (shop_with PENDING))
                (''o1'' \<mapsto> (orderA PENDING)\<lparr>stripePaymentIntentId := Some ''pi_1''\<rparr>)\<rparr>)"
    by blast
  have c: "fst (createPaymentIntent stub_env ''o1'' (shop_with PENDING)) =
     \<lparr>statusCode = 200, success = True, message = ''Payment intent created successfully'',
      data = IntentData ''o1'' ((orderA PENDING)\<lparr>stripePaymentIntentId := Some ''pi_1''\<rparr>)
               ''pi_1_secret''\<rparr>"
    by (simp add: run)
  have e: "map_option stripePaymentIntentId
     (orders (snd (createPaymentIntent stub_env ''o1'' (shop_with PENDING))) ''o1'') =
     Some (Some ''pi_1'')"
    by (simp add: run)
  have "totalAmount (orderA PENDING) = Finite 20"
    by (simp add: orderA_def)
  with amt have "amount request = Finite 2000"
    by (simp only: cents_of_two_widgets)
  with reqs have d: "map amount
      (intent_requests (snd (createPaymentIntent stub_env ''o1'' (shop_with PENDING)))) =
      [Finite 2000]"
    by (simp add: shop_with_def shop_def)
  from a b c d e show ?thesis
    by (intro conjI)
qed

subsection \<open>Admin status override\<close>

text \<open>
  \<^bold>\<open>C9\<close>. \<^verbatim>\<open>updateOrderStatus\<close> on an existing order with a status of the
  enumeration always answers with success and stores the new status. When the new status
  is PAID and the old one was not, the loop runs over all items as the specification
  describes (\<open>decrement_each\<close>): each item is tried in turn, a decrement that fails (no
  row, or a stock that would leave the range of the column) changes no stock, leaves one
  entry in the log and stops neither the items after it nor the response; then the
  confirmation mail is attempted once, a failure leaving one more log entry. When no
  quantity is negative and every stock fits the column before and after, nothing fails:
  every product has its stock decremented by the quantities of the items that reference it.
  In every other case the products, the mails and the log are as before: neither the loop
  nor the mail is run.
\<close>

theorem updateOrderStatus_contract:
  assumes ord: "orders st oid = Some ord" and valid: "s \<in> set validStatuses"
  shows "fst (updateOrderStatus e oid s st) =
           \<lparr>statusCode = 200, success = True, message = ''Order status updated successfully'',
            data = OrderData oid (ord\<lparr>status := status_of_string s\<rparr>)\<rparr> \<and>
         orders (snd (updateOrderStatus e oid s st)) =
           (orders st)(oid \<mapsto> ord\<lparr>status := status_of_string s\<rparr>) \<and>
         (if s = ''PAID'' \<and> status ord \<noteq> PAID
          then
            products (snd (updateOrderStatus e oid s st)) =
              fst (decrement_each (items ord) (products st)) \<and>
            mail_attempts (snd (updateOrderStatus e oid s st)) =
              mail_attempts st @
              [\<lparr>mail_to = customerEmail ord, mail_orderId = oid,
                mail_delivered = sendMail e (customerEmail ord) oid (ord\<lparr>status := PAID\<rparr>)\<rparr>] \<and>
            log (snd (updateOrderStatus e oid s st)) =
              log st @ snd (decrement_each (items ord) (products st)) @
              (if sendMail e (customerEmail ord) oid (ord\<lparr>status := PAID\<rparr>) then []
               else [LogError ''Failed to send confirmation email'']) \<and>
            ((\<forall>it \<in> set (items ord). 0 \<le> quantity it) \<and>
             (\<forall>it \<in> set (items ord). \<exists>p. products st (productId it) = Some p \<and>
                int32 (stock p) \<and>
                int32 (stock p - ordered_quantity (productId it) (items ord))) \<longrightarrow>
             snd (decrement_each (items ord) (products st)) = [] \<and>
             (\<forall>pid. products (snd (updateOrderStatus e oid s st)) pid =
                map_option (\<lambda>p. p\<lparr>stock := stock p - ordered_quantity pid (items ord)\<rparr>)
                  (products st pid)))
          else
            products (snd (updateOrderStatus e oid s st)) = products st \<and>
            mail_attempts (snd (updateOrderStatus e oid s st)) = mail_attempts st \<and>
            log (snd (updateOrderStatus e oid s st)) = log st)"
proof -
  define updated where "updated = ord\<lparr>status := status_of_string s\<rparr>"
  define st1 where "st1 = st\<lparr>orders := (orders st)(oid \<mapsto> updated)\<rparr>"
  have upd: "order_update oid (\<lambda>r. r\<lparr>status := status_of_string s\<rparr>) st = (Ok updated, st1)"
    using ord by (simp add: order_update_def st1_def updated_def)
  show ?thesis
  proof (cases "s = ''PAID'' \<and> status ord \<noteq> PAID")
    case False
    then have "updateOrderStatus e oid s st =
        (sendSuccess (OrderData oid updated) ''Order status updated successfully'' 200, st1)"
      using ord valid by (auto simp: updateOrderStatus_def updateOrderStatus_try_def upd)
    then show ?thesis
      using False by (auto simp: st1_def updated_def sendSuccess_def)
  next
    case True
    then have paid: "updated = ord\<lparr>status := PAID\<rparr>"
      by (simp add: updated_def status_of_string_def)
    define ok where "ok = sendMail e (customerEmail ord) oid (ord\<lparr>status := PAID\<rparr>)"
    define st2 where "st2 = decrementStockLogged (items ord) st1"
    define st3 where "st3 = st2\<lparr>mail_attempts := mail_attempts st2 @
        [\<lparr>mail_to = customerEmail ord, mail_orderId = oid, mail_delivered = ok\<rparr>]\<rparr>"
    define st4 where "st4 =
        (if ok then st3 else logger (LogError ''Failed to send confirmation email'') st3)"
    have mail: "sendOrderConfirmationEmail e (customerEmail ord) oid updated st2 =
        (if ok then Ok () else Throw (Error ''sendMail failed''), st3)"
      by (simp add: sendOrderConfirmationEmail_def Let_def ok_def st3_def paid)
    have run: "updateOrderStatus e oid s st =
        (sendSuccess (OrderData oid updated) ''Order status updated successfully'' 200, st4)"
      using ord valid True upd
      by (simp add: updateOrderStatus_def updateOrderStatus_try_def Let_def
          st2_def [symmetric] mail st4_def)
    have st2: "st2 = st1\<lparr>products := fst (decrement_each (items ord) (products st1)),
        log := log st1 @ snd (decrement_each (items ord) (products st1))\<rparr>"
      unfolding st2_def by (rule decrementStockLogged_eq)
    have A: "orders st4 = (orders st)(oid \<mapsto> ord\<lparr>status := status_of_string s\<rparr>)"
      by (simp add: st4_def st3_def st2 st1_def logger_def updated_def)
    have B: "products st4 = fst (decrement_each (items ord) (products st))"
      by (simp add: st4_def st3_def st2 st1_def logger_def)
    have C: "mail_attempts st4 = mail_attempts st @
        [\<lparr>mail_to = customerEmail ord, mail_orderId = oid, mail_delivered = ok\<rparr>]"
      by (simp add: st4_def st3_def st2 st1_def logger_def)
    have D: "log st4 = log st @ snd (decrement_each (items ord) (products st)) @
        (if ok then [] else [LogError ''Failed to send confirmation email''])"
      by (simp add: st4_def st3_def st2 st1_def logger_def)
    have E: "snd (decrement_each (items ord) (products st)) = [] \<and>
        (\<forall>pid. products st4 pid =
           map_option (\<lambda>p. p\<lparr>stock := stock p - ordered_quantity pid (items ord)\<rparr>)
             (products st pid))"
      if "\<forall>it \<in> set (items ord). 0 \<le> quantity it"
        and "\<forall>it \<in> set (items ord). \<exists>p. products st (productId it) = Some p \<and>
                int32 (stock p) \<and>
                int32 (stock p - ordered_quantity (productId it) (items ord))"
    proof -
      from that have each: "decrement_each (items ord) (products st) =
          (settle_stock (items ord) (products st), [])"
        by (rule decrement_each_in_range)
      have "products st4 pid =
           map_option (\<lambda>p. p\<lparr>stock := stock p - ordered_quantity pid (items ord)\<rparr>)
             (products st pid)" for pid
        by (cases "products st pid") (simp_all add: B each settle_stock_def decrement_def)
      with each show ?thesis
        by simp
    qed
    show ?thesis
      unfolding run fst_conv snd_conv updated_def
      using True A B C D E
      by (simp add: ok_def sendSuccess_def)
  qed
qed

theorem updateOrderStatus_contract_witness:
  "fst (updateOrderStatus stub_env ''o1'' ''PAID'' kiosk_open) =
     \<lparr>statusCode = 200, success = True, message = ''Order status updated successfully'',
      data = OrderData ''o1'' (orderZ\<lparr>status := PAID\<rparr>)\<rparr> \<and>
   map_option status (orders (snd (updateOrderStatus stub_env ''o1'' ''PAID'' kiosk_open)) ''o1'') =
     Some PAID \<and>
   map_option stock (products (snd (updateOrderStatus stub_env ''o1'' ''PAID'' kiosk_open)) ''pZ'') =
     Some (- 2147483648) \<and>
   map_option stock (products (snd (updateOrderStatus stub_env ''o1'' ''PAID'' kiosk_open)) ''pS'') =
     Some 8 \<and>
   map mail_delivered
     (mail_attempts (snd (updateOrderStatus stub_env ''o1'' ''PAID'' kiosk_open))) = [False] \<and>
   log (snd (updateOrderStatus stub_env ''o1'' ''PAID'' kiosk_open)) =
     [LogError ''Failed to update stock for product pZ'',
      LogError ''Failed to send confirmation email'']"
  using updateOrderStatus_contract [of kiosk_open "''o1''" orderZ "''PAID''" stub_env]
  by (simp add: validStatuses_def status_of_string_def orderZ_def kiosk_open_def kiosk_def
      relic_def sticker_def stub_env_def try_decrement_def int32_def)

end
